theory Spec2Isabelle
  imports Complex_Main
begin

section \<open>JavaScript values and the runtime\<close>

text \<open>
  The proxy translates between the Anthropic messages protocol and the Azure OpenAI
  responses protocol (\<^verbatim>\<open>src/src/converters.ts\<close>) and replays a finished answer as a
  server-sent event stream (\<^verbatim>\<open>src/src/server.ts\<close>).

  Fields that the TypeScript declares with a type are modelled with that type, an
  optional field \<^verbatim>\<open>f?: T\<close> as \<open>T option\<close> (\<open>None\<close> is \<^verbatim>\<open>undefined\<close>; for
  \<^verbatim>\<open>string | null\<close> it is also \<^verbatim>\<open>null\<close>). Fields declared \<^verbatim>\<open>unknown\<close> hold a JavaScript
  value of type \<open>js\<close>. A string is a list of code units, here the ones below 256;
  a number is a rational, which every finite double is.
\<close>

type_synonym number = rat

datatype js =
    JUndefined
  | JNull
  | JBool bool
  | JNum number
  | JStr string
  | JArr "js list"
  | JObj "(string \<times> js) list"

text \<open>
  \<^verbatim>\<open>JSON.stringify\<close>, \<^verbatim>\<open>JSON.parse\<close> and \<^verbatim>\<open>String\<close> belong to the JavaScript runtime, not
  to the repository. The model takes them as a parameter, so every theorem holds for
  whatever they compute. \<open>JSON_parse\<close> returns \<open>None\<close> where \<^verbatim>\<open>JSON.parse\<close> throws.
\<close>

record runtime =
  JSON_stringify :: "js \<Rightarrow> string"
  JSON_parse :: "string \<Rightarrow> js option"
  String_of :: "js \<Rightarrow> string"

text \<open>\<^verbatim>\<open>a ?? d\<close> with a definite right operand, and with a right operand that may be absent.\<close>

fun orElse :: "'a option \<Rightarrow> 'a \<Rightarrow> 'a" where
  "orElse (Some x) d = x"
| "orElse None d = d"

fun orElseOpt :: "'a option \<Rightarrow> 'a option \<Rightarrow> 'a option" where
  "orElseOpt (Some x) b = Some x"
| "orElseOpt None b = b"

text \<open>\<^verbatim>\<open>v ?? d\<close> on an \<^verbatim>\<open>unknown\<close> value: both \<^verbatim>\<open>null\<close> and \<^verbatim>\<open>undefined\<close> give way.\<close>

fun nullishOr :: "js \<Rightarrow> js \<Rightarrow> js" where
  "nullishOr JUndefined d = d"
| "nullishOr JNull d = d"
| "nullishOr v d = v"

text \<open>Truthiness of a \<^verbatim>\<open>string | null | undefined\<close>: only a non-empty string is truthy.\<close>

fun truthy :: "string option \<Rightarrow> bool" where
  "truthy None = False"
| "truthy (Some s) = (s \<noteq> [])"

text \<open>
  \<^verbatim>\<open>String.prototype.trim\<close> removes white space and line terminators from both ends;
  below 256 these are tab, line feed, vertical tab, form feed, carriage return, space
  and the no-break space.
\<close>

definition isWhiteSpace :: "char \<Rightarrow> bool" where
  "isWhiteSpace c \<longleftrightarrow>
     c \<in> set [CHR 0x09, CHR 0x0A, CHR 0x0B, CHR 0x0C, CHR 0x0D, CHR 0x20, CHR 0xA0]"

definition trim :: "string \<Rightarrow> string" where
  "trim s = rev (dropWhile isWhiteSpace (rev (dropWhile isWhiteSpace s)))"

text \<open>The decimal digits of a natural number, as a template literal prints a length.\<close>

function decimal :: "nat \<Rightarrow> string" where
  "decimal n =
     (if n < 10 then [''0123456789'' ! n]
      else decimal (n div 10) @ [''0123456789'' ! (n mod 10)])"
  by pat_completeness auto
termination
  by (relation "measure (\<lambda>n. n)") auto

declare decimal.simps [simp del]

text \<open>\<^verbatim>\<open>normalizeToString\<close> (converters.ts, lines 195-213).\<close>

fun normalizeToString :: "runtime \<Rightarrow> js \<Rightarrow> string" where
  "normalizeToString rt (JStr s) = s"
| "normalizeToString rt JNull = []"
| "normalizeToString rt JUndefined = []"
| "normalizeToString rt (JArr items) = concat (map (normalizeToString rt) items)"
| "normalizeToString rt (JObj members) = JSON_stringify rt (JObj members)"
| "normalizeToString rt (JBool b) = String_of rt (JBool b)"
| "normalizeToString rt (JNum n) = String_of rt (JNum n)"

section \<open>The protocol types\<close>

subsection \<open>Anthropic content blocks\<close>

text \<open>
  \<^verbatim>\<open>AnthropicToolResultBlock.content\<close> is declared \<^verbatim>\<open>string | AnthropicTextBlock[]\<close>. The
  serializer also has a branch for a value that is neither (lines 278-280), which
  \<open>ContentOther\<close> carries. An \<^verbatim>\<open>AnthropicTextBlock\<close> is its text.
\<close>

datatype tool_result_content =
    ContentString string
  | ContentArray "string list"
  | ContentOther js

record AnthropicToolResultBlock =
  tool_use_id :: string
  tr_content :: "tool_result_content option"
  tr_text :: "string option"
  is_error :: "bool option"
  status :: "string option"

datatype AnthropicContentBlock =
    Text string
  | ToolUse string string js
  | ToolResult AnthropicToolResultBlock

subsection \<open>Azure response bodies\<close>

datatype AzureTextContentBlockType =
    input_text
  | output_text
  | summary_text
  | refusal
  | input_image
  | input_file
  | computer_screenshot
  | tether_browsing_display

record AzureFunction =
  fn_name :: "string option"
  fn_arguments :: "string option"

record AzureToolCall =
  tc_id :: "string option"
  tc_name :: "string option"
  tc_arguments :: "string option"
  tc_function :: "AzureFunction option"

text \<open>
  \<^verbatim>\<open>tool_calls\<close> is optional here because the code reads it as \<^verbatim>\<open>block.tool_calls ?? []\<close>.
\<close>

datatype AzureContentBlock =
    AzureTextContentBlock AzureTextContentBlockType string
  | AzureToolCallBlock "AzureToolCall list option"

datatype role = User | Assistant | System | Tool

text \<open>
  The entries of \<^verbatim>\<open>content\<close> and \<^verbatim>\<open>output\<close> are optional because the code skips a
  falsy entry (\<^verbatim>\<open>if (!block) continue\<close>, \<^verbatim>\<open>if (!item) continue\<close>), and the lists are
  optional because it reads them as \<^verbatim>\<open>message.content ?? []\<close> and
  \<^verbatim>\<open>data.output ?? []\<close>.
\<close>

record AzureResponseOutputMessage =
  om_id :: "string option"
  om_role :: role
  om_content :: "AzureContentBlock option list option"
  om_stop_reason :: "string option"

record AzureResponseFunctionCall =
  fc_id :: "string option"
  fc_call_id :: "string option"
  fc_name :: "string option"
  fc_arguments :: "string option"

datatype AzureResponseOutputItem =
    OutputMessage AzureResponseOutputMessage
  | FunctionCall AzureResponseFunctionCall

record AzureUsage =
  completion_tokens :: "number option"
  prompt_tokens :: "number option"
  total_tokens :: "number option"
  output_tokens :: "number option"
  input_tokens :: "number option"

record AzureResponsesResponseBody =
  res_id :: "string option"
  res_model :: "string option"
  res_output :: "AzureResponseOutputItem option list option"
  res_usage :: "AzureUsage option"
  res_output_text :: "string option"

subsection \<open>Anthropic responses\<close>

record Usage =
  usage_input_tokens :: number
  usage_output_tokens :: number

text \<open>The constant fields \<^verbatim>\<open>type: 'message'\<close> and \<^verbatim>\<open>role: 'assistant'\<close> are left out.\<close>

record AnthropicResponse =
  resp_id :: string
  resp_model :: string
  resp_content :: "AnthropicContentBlock list"
  resp_stop_reason :: "string option"
  resp_stop_sequence :: "string option"
  resp_usage :: Usage

section \<open>Translating an Azure response\<close>

text \<open>\<^verbatim>\<open>safeJsonParse\<close> (lines 339-348): \<^verbatim>\<open>!value\<close> holds for an absent and for an empty string.\<close>

definition safeJsonParse :: "runtime \<Rightarrow> string option \<Rightarrow> js \<Rightarrow> js" where
  "safeJsonParse rt v fallback =
     (case v of
        None \<Rightarrow> fallback
      | Some s \<Rightarrow>
          if s = [] then fallback
          else (case JSON_parse rt s of Some parsed \<Rightarrow> parsed | None \<Rightarrow> fallback))"

text \<open>\<^verbatim>\<open>mapStopReason\<close> (lines 471-479).\<close>

definition mapStopReason :: "string option \<Rightarrow> bool \<Rightarrow> string" where
  "mapStopReason responseStopReason hasToolCall =
     (case responseStopReason of
        Some s \<Rightarrow> if s \<noteq> [] then s else if hasToolCall then ''tool_use'' else ''end_turn''
      | None \<Rightarrow> if hasToolCall then ''tool_use'' else ''end_turn'')"

text \<open>The three local variables of \<^verbatim>\<open>azureToAnthropicResponse\<close> that its loops update.\<close>

record translation =
  contentBlocks :: "AnthropicContentBlock list"
  stopReason :: "string option"
  processedToolCallIds :: "string set"

text \<open>The body of the loop over \<^verbatim>\<open>block.tool_calls\<close> (lines 508-518).\<close>

definition expandCall :: "runtime \<Rightarrow> translation \<Rightarrow> AzureToolCall \<Rightarrow> translation" where
  "expandCall rt st call =
     (let callName = orElse (orElseOpt (tc_name call) (Option.bind (tc_function call) fn_name)) ''tool'';
          callId = orElse (tc_id call)
                     (orElse (Some callName) (''tool_'' @ decimal (length (contentBlocks st))))
      in st\<lparr>processedToolCallIds := insert callId (processedToolCallIds st),
             contentBlocks := contentBlocks st @
               [ToolUse callId callName
                  (safeJsonParse rt
                     (orElseOpt (tc_arguments call) (Option.bind (tc_function call) fn_arguments))
                     (JObj []))]\<rparr>)"

text \<open>The body of the loop over \<^verbatim>\<open>message.content\<close> (lines 498-519).\<close>

fun convertBlock :: "runtime \<Rightarrow> translation \<Rightarrow> AzureContentBlock option \<Rightarrow> translation" where
  "convertBlock rt st None = st"
| "convertBlock rt st (Some (AzureTextContentBlock ty txt)) =
     (if ty = output_text \<or> ty = summary_text
      then st\<lparr>contentBlocks := contentBlocks st @ [Text (normalizeToString rt (JStr txt))]\<rparr>
      else st)"
| "convertBlock rt st (Some (AzureToolCallBlock calls)) =
     foldl (expandCall rt) st (orElse calls [])"

text \<open>The body of the loop over \<^verbatim>\<open>data.output\<close> (lines 491-542).\<close>

fun convertItem :: "runtime \<Rightarrow> translation \<Rightarrow> AzureResponseOutputItem option \<Rightarrow> translation" where
  "convertItem rt st None = st"
| "convertItem rt st (Some (OutputMessage message)) =
     (let st1 = foldl (convertBlock rt) st (orElse (om_content message) [])
      in if \<not> truthy (stopReason st1)
         then st1\<lparr>stopReason :=
                Some (mapStopReason (om_stop_reason message) (processedToolCallIds st1 \<noteq> {}))\<rparr>
         else st1)"
| "convertItem rt st (Some (FunctionCall call)) =
     (let callName = orElse (fc_name call) ''tool'';
          callId = orElse (orElseOpt (fc_call_id call) (fc_id call))
                     (orElse (Some callName)
                        (''tool_'' @ decimal (card (processedToolCallIds st))))
      in if callId \<in> processedToolCallIds st then st
         else let st1 = st\<lparr>processedToolCallIds := insert callId (processedToolCallIds st),
                            contentBlocks := contentBlocks st @
                              [ToolUse callId callName
                                 (safeJsonParse rt (fc_arguments call) (JObj []))]\<rparr>
              in if \<not> truthy (stopReason st1) then st1\<lparr>stopReason := Some ''tool_use''\<rparr>
                 else st1)"

text \<open>\<^verbatim>\<open>azureToAnthropicResponse\<close> (lines 481-573).\<close>

definition azureToAnthropicResponse ::
  "runtime \<Rightarrow> AzureResponsesResponseBody \<Rightarrow> string \<Rightarrow> AnthropicResponse" where
  "azureToAnthropicResponse rt data requestedModel =
     (let st0 = \<lparr>contentBlocks = [], stopReason = None, processedToolCallIds = {}\<rparr>;
          st1 = foldl (convertItem rt) st0 (orElse (res_output data) []);
          st2 = (if length (contentBlocks st1) = 0
                 then st1\<lparr>contentBlocks :=
                        contentBlocks st1 @ [Text (orElse (res_output_text data) [])]\<rparr>
                 else st1);
          st3 = (if \<not> truthy (stopReason st2) then st2\<lparr>stopReason := Some ''end_turn''\<rparr>
                 else st2);
          usage = orElse (res_usage data)
                    \<lparr>completion_tokens = None, prompt_tokens = None, total_tokens = None,
                     output_tokens = None, input_tokens = None\<rparr>;
          inputTokens = orElse (orElseOpt (input_tokens usage) (prompt_tokens usage)) 0;
          outputTokens = orElse (orElseOpt (output_tokens usage) (completion_tokens usage)) 0
      in \<lparr>resp_id = orElse (res_id data) ''proxy-response'',
          resp_model = orElse (res_model data) requestedModel,
          resp_content = contentBlocks st3,
          resp_stop_reason = stopReason st3,
          resp_stop_sequence = None,
          resp_usage = \<lparr>usage_input_tokens = inputTokens, usage_output_tokens = outputTokens\<rparr>\<rparr>)"

subsection \<open>Response bodies as they arrive\<close>











section \<open>Translating an Anthropic request\<close>

subsection \<open>Requests as they arrive\<close>

text \<open>
  The request body is parsed JSON that the handler casts to \<^verbatim>\<open>AnthropicRequest\<close>
  without checking it, and the translator tests at run time what the type promises.
  So the model keeps what those tests can see: an entry of a content array is a
  string, an object with whichever of the inspected properties it has (\<open>None\<close> where
  the property is missing), or something that is not an object at all.
\<close>

record raw_block =
  rb_type :: "string option"
  rb_text :: "string option"
  rb_id :: "string option"
  rb_name :: "string option"
  rb_input :: js
  rb_tool_use_id :: "string option"
  rb_content :: "tool_result_content option"
  rb_is_error :: "bool option"
  rb_status :: "string option"

datatype content_item =
    ItemString string
  | ItemNotObject
  | ItemObject raw_block

datatype message_content =
    ContentText string
  | ContentItems "content_item list"
  | ContentNeither

record AnthropicMessage =
  msg_role :: role
  msg_content :: message_content

record AnthropicToolDefinition =
  tool_name :: string
  tool_description :: "string option"
  input_schema :: "(string \<times> js) list option"

text \<open>\<open>ChoiceObject t n\<close> is the object \<^verbatim>\<open>{type: t, name: n}\<close>.\<close>

datatype AnthropicToolChoice =
    ChoiceAuto
  | ChoiceNone
  | ChoiceAny
  | ChoiceObject string string

record Reasoning =
  effort :: "string option"

record AnthropicRequest =
  req_model :: "string option"
  req_system :: "string option"
  req_max_tokens :: "number option"
  req_temperature :: "number option"
  req_top_p :: "number option"
  req_stop_sequences :: "string list option"
  req_stream :: "bool option"
  req_messages :: "AnthropicMessage list option"
  req_metadata :: "(string \<times> js) list option"
  req_tools :: "AnthropicToolDefinition list option"
  req_tool_choice :: "AnthropicToolChoice option"
  req_reasoning :: "Reasoning option"

record Options =
  defaultReasoningEffort :: "string option"

subsection \<open>Azure request bodies\<close>

datatype AzureInputItem =
    AzureMessageInput role "AzureContentBlock list"
  | AzureFunctionCallOutput string string
  | AzureFunctionCallInput string string string

record AzureToolDefinition =
  az_tool_type :: string
  az_tool_name :: "string option"
  az_tool_description :: "string option"
  az_tool_parameters :: "(string \<times> js) list option"

datatype AzureToolChoice =
    AzureAuto
  | AzureNone
  | AzureRequired
  | AzureFunctionChoice string

record AzureResponsesRequestBody =
  az_model :: string
  az_input :: "AzureInputItem list"
  az_temperature :: "number option"
  az_top_p :: "number option"
  az_stop :: "string list option"
  az_max_output_tokens :: "number option"
  az_metadata :: "(string \<times> js) list option"
  az_tools :: "AzureToolDefinition list option"
  az_tool_choice :: "AzureToolChoice option"
  az_reasoning :: "Reasoning option"

subsection \<open>Normalizing message content\<close>

text \<open>\<^verbatim>\<open>throw new Error(message)\<close> is the value \<open>Inl (Error message)\<close>.\<close>

datatype error = Error string

definition strOrUndefined :: "string option \<Rightarrow> js" where
  "strOrUndefined v = (case v of None \<Rightarrow> JUndefined | Some s \<Rightarrow> JStr s)"

text \<open>The callback of \<^verbatim>\<open>content.map\<close> in \<^verbatim>\<open>normalizeMessageContent\<close> (lines 224-261).\<close>

fun normalizeItem :: "runtime \<Rightarrow> content_item \<Rightarrow> error + AnthropicContentBlock" where
  "normalizeItem rt (ItemString s) = Inr (Text (normalizeToString rt (JStr s)))"
| "normalizeItem rt ItemNotObject = Inl (Error ''Unsupported content block format'')"
| "normalizeItem rt (ItemObject block) =
     (case rb_type block of
        None \<Rightarrow> Inl (Error ''Unsupported content block format'')
      | Some ty \<Rightarrow>
          if ty = ''text''
          then Inr (Text (normalizeToString rt (strOrUndefined (rb_text block))))
          else if ty = ''tool_use''
          then (case (rb_id block, rb_name block) of
                  (Some i, Some n) \<Rightarrow> Inr (ToolUse i n (nullishOr (rb_input block) (JObj [])))
                | _ \<Rightarrow> Inl (Error ''tool_use block must include id and name''))
          else if ty = ''tool_result''
          then (case rb_tool_use_id block of
                  None \<Rightarrow> Inl (Error ''tool_result block must include tool_use_id'')
                | Some i \<Rightarrow>
                    Inr (ToolResult
                           \<lparr>tool_use_id = i, tr_content = rb_content block,
                            tr_text = rb_text block, is_error = rb_is_error block,
                            status = rb_status block\<rparr>))
          else Inl (Error (''Unsupported content block type: '' @ ty)))"

text \<open>\<^verbatim>\<open>Array.prototype.map\<close> with a callback that may throw: the first throw ends it.\<close>

fun mapOrThrow :: "('a \<Rightarrow> error + 'b) \<Rightarrow> 'a list \<Rightarrow> error + 'b list" where
  "mapOrThrow f [] = Inr []"
| "mapOrThrow f (x # xs) =
     (case f x of
        Inl e \<Rightarrow> Inl e
      | Inr y \<Rightarrow> (case mapOrThrow f xs of Inl e \<Rightarrow> Inl e | Inr ys \<Rightarrow> Inr (y # ys)))"

text \<open>\<^verbatim>\<open>normalizeMessageContent\<close> (lines 215-262).\<close>

fun normalizeMessageContent ::
  "runtime \<Rightarrow> message_content \<Rightarrow> error + AnthropicContentBlock list" where
  "normalizeMessageContent rt (ContentText s) = Inr [Text (normalizeToString rt (JStr s))]"
| "normalizeMessageContent rt ContentNeither =
     Inl (Error ''Message content must be a string or an array of content blocks'')"
| "normalizeMessageContent rt (ContentItems content) = mapOrThrow (normalizeItem rt) content"

subsection \<open>Tool results, tools and tool choice\<close>

text \<open>
  \<^verbatim>\<open>serializeToolResultOutput\<close> (lines 264-292). \<open>toolResultPayload\<close> is its last part,
  reached when \<^verbatim>\<open>content\<close> is neither a string nor an array; \<open>contentValue\<close> is then
  the value of \<^verbatim>\<open>block.content\<close>.
\<close>

definition toolResultPayload :: "runtime \<Rightarrow> AnthropicToolResultBlock \<Rightarrow> js \<Rightarrow> string" where
  "toolResultPayload rt block contentValue =
     (case tr_text block of
        Some t \<Rightarrow> t
      | None \<Rightarrow>
          JSON_stringify rt
            (JObj ([(''tool_use_id'', JStr (tool_use_id block))] @
                   (if contentValue \<noteq> JUndefined then [(''content'', contentValue)] else []) @
                   (case is_error block of
                      Some b \<Rightarrow> [(''is_error'', JBool b)]
                    | None \<Rightarrow> []) @
                   (case status block of
                      Some t \<Rightarrow> [(''status'', JStr t)]
                    | None \<Rightarrow> []))))"

definition serializeToolResultOutput :: "runtime \<Rightarrow> AnthropicToolResultBlock \<Rightarrow> string" where
  "serializeToolResultOutput rt block =
     (case tr_content block of
        Some (ContentString s) \<Rightarrow> s
      | Some (ContentArray parts) \<Rightarrow> concat (map (\<lambda>t. normalizeToString rt (JStr t)) parts)
      | Some (ContentOther v) \<Rightarrow> toolResultPayload rt block v
      | None \<Rightarrow> toolResultPayload rt block JUndefined)"

text \<open>\<^verbatim>\<open>anthropicToolsToAzure\<close> (lines 294-310).\<close>

definition anthropicToolsToAzure ::
  "AnthropicToolDefinition list option \<Rightarrow> AzureToolDefinition list option" where
  "anthropicToolsToAzure tools =
     (case tools of
        None \<Rightarrow> None
      | Some [] \<Rightarrow> None
      | Some ts \<Rightarrow>
          Some (map (\<lambda>tool.
                  \<lparr>az_tool_type = ''function'',
                   az_tool_name = Some (tool_name tool),
                   az_tool_description = tool_description tool,
                   az_tool_parameters =
                     (case input_schema tool of
                        Some (m # ms) \<Rightarrow> Some (m # ms)
                      | _ \<Rightarrow> Some [(''type'', JStr ''object''), (''properties'', JObj [])])\<rparr>)
                ts))"

text \<open>\<^verbatim>\<open>anthropicToolChoiceToAzure\<close> (lines 312-337).\<close>

definition anthropicToolChoiceToAzure :: "AnthropicToolChoice option \<Rightarrow> AzureToolChoice option" where
  "anthropicToolChoiceToAzure toolChoice =
     (case toolChoice of
        None \<Rightarrow> None
      | Some ChoiceAuto \<Rightarrow> Some AzureAuto
      | Some ChoiceNone \<Rightarrow> Some AzureNone
      | Some ChoiceAny \<Rightarrow> Some AzureRequired
      | Some (ChoiceObject ty n) \<Rightarrow> if ty = ''tool'' then Some (AzureFunctionChoice n) else None)"

subsection \<open>The translation\<close>

text \<open>
  The list \<^verbatim>\<open>input\<close> and the \<^verbatim>\<open>textAccumulator\<close> of the message at hand, which the loop
  over the blocks of a message updates (lines 369-422).
\<close>

record accumulation =
  input :: "AzureInputItem list"
  textAccumulator :: "string list"

text \<open>The closure \<^verbatim>\<open>flushText\<close> (lines 373-392).\<close>

definition flushText :: "role \<Rightarrow> accumulation \<Rightarrow> accumulation" where
  "flushText r st =
     (if length (textAccumulator st) = 0 then st
      else let contentType = (if r = Assistant then output_text else input_text)
           in st\<lparr>input := input st @
                    [AzureMessageInput r
                       [AzureTextContentBlock contentType (concat (textAccumulator st))]],
                  textAccumulator := []\<rparr>)"

text \<open>
  The \<^verbatim>\<open>switch\<close> on a normalized block (lines 395-418). Its \<^verbatim>\<open>default\<close> branch has no
  counterpart: a normalized block is one of the three kinds.
\<close>

fun pushBlock :: "runtime \<Rightarrow> role \<Rightarrow> accumulation \<Rightarrow> AnthropicContentBlock \<Rightarrow> accumulation" where
  "pushBlock rt r st (Text t) = st\<lparr>textAccumulator := textAccumulator st @ [t]\<rparr>"
| "pushBlock rt r st (ToolUse i n v) =
     (let st1 = flushText r st
      in st1\<lparr>input := input st1 @
                [AzureFunctionCallInput i n (JSON_stringify rt (nullishOr v (JObj [])))]\<rparr>)"
| "pushBlock rt r st (ToolResult block) =
     (let st1 = flushText r st
      in st1\<lparr>input := input st1 @
                [AzureFunctionCallOutput (tool_use_id block)
                   (serializeToolResultOutput rt block)]\<rparr>)"

text \<open>One round of the loop over \<^verbatim>\<open>body.messages\<close>, and the loop.\<close>

definition convertMessage ::
  "runtime \<Rightarrow> AzureInputItem list \<Rightarrow> AnthropicMessage \<Rightarrow> error + AzureInputItem list" where
  "convertMessage rt inp message =
     (case normalizeMessageContent rt (msg_content message) of
        Inl e \<Rightarrow> Inl e
      | Inr blocks \<Rightarrow>
          Inr (input (flushText (msg_role message)
                 (foldl (pushBlock rt (msg_role message))
                    \<lparr>input = inp, textAccumulator = []\<rparr> blocks))))"

fun convertMessages ::
  "runtime \<Rightarrow> AzureInputItem list \<Rightarrow> AnthropicMessage list \<Rightarrow> error + AzureInputItem list" where
  "convertMessages rt inp [] = Inr inp"
| "convertMessages rt inp (message # rest) =
     (case convertMessage rt inp message of
        Inl e \<Rightarrow> Inl e
      | Inr inp1 \<Rightarrow> convertMessages rt inp1 rest)"

text \<open>
  \<^verbatim>\<open>anthropicToAzureRequest\<close> (lines 350-469). \<open>fallbackModel\<close> is optional because the
  code reads it through \<^verbatim>\<open>?? ''\<close>; it comes from a configuration file.
\<close>

definition anthropicToAzureRequest ::
  "runtime \<Rightarrow> AnthropicRequest \<Rightarrow> string option \<Rightarrow> Options option \<Rightarrow>
   error + AzureResponsesRequestBody" where
  "anthropicToAzureRequest rt body fallbackModel options =
     (case req_messages body of
        None \<Rightarrow> Inl (Error ''Anthropic request must include at least one message'')
      | Some [] \<Rightarrow> Inl (Error ''Anthropic request must include at least one message'')
      | Some messages \<Rightarrow>
          (case convertMessages rt
                  (case req_system body of
                     None \<Rightarrow> []
                   | Some sys \<Rightarrow>
                       if sys = [] then []
                       else [AzureMessageInput System
                               [AzureTextContentBlock input_text
                                  (normalizeToString rt (JStr sys))]])
                  messages of
             Inl e \<Rightarrow> Inl e
           | Inr inp \<Rightarrow>
               let requestedModel =
                     orElse (case req_model body of
                               Some m \<Rightarrow> if length (trim m) > 0 then Some m else fallbackModel
                             | None \<Rightarrow> fallbackModel) [];
                   reasoningEffort =
                     orElseOpt (Option.bind (req_reasoning body) effort)
                       (Option.bind options defaultReasoningEffort)
               in if requestedModel = []
                  then Inl (Error ''No model specified in request or config'')
                  else Inr
                    \<lparr>az_model = requestedModel,
                     az_input = inp,
                     az_temperature = req_temperature body,
                     az_top_p = req_top_p body,
                     az_stop = (case req_stop_sequences body of
                                  Some (x # xs) \<Rightarrow> Some (x # xs)
                                | _ \<Rightarrow> None),
                     az_max_output_tokens = req_max_tokens body,
                     az_metadata = req_metadata body,
                     az_tools = anthropicToolsToAzure (req_tools body),
                     az_tool_choice = anthropicToolChoiceToAzure (req_tool_choice body),
                     az_reasoning =
                       (case reasoningEffort of
                          Some e \<Rightarrow> if length (trim e) > 0 then Some \<lparr>effort = Some e\<rparr> else None
                        | None \<Rightarrow> None)\<rparr>))"

section \<open>Replaying a response as an event stream\<close>

text \<open>
  The state of the Express response that \<^verbatim>\<open>streamAnthropicResponse\<close> writes to. One
  entry of \<open>events\<close> is one frame: the event-name line and the data line that
  \<^verbatim>\<open>writeSseEvent\<close> writes (lines 12-19), the data kept as a value instead of its JSON
  text. The flush after a frame leaves no trace in the state.
\<close>

datatype sse_delta =
    text_delta string
  | input_json_delta string

datatype sse_data =
    message_start AnthropicResponse
  | content_block_start nat AnthropicContentBlock
  | content_block_delta nat sse_delta
  | content_block_stop nat
  | message_delta "string option" "string option" Usage
  | message_stop

type_synonym sse_event = "string \<times> sse_data"

record transport =
  statusCode :: "nat option"
  headers :: "string \<rightharpoonup> string"
  events :: "sse_event list"
  ended :: bool

definition freshTransport :: transport where
  "freshTransport = \<lparr>statusCode = None, headers = Map.empty, events = [], ended = False\<rparr>"

definition setHeader :: "transport \<Rightarrow> string \<Rightarrow> string \<Rightarrow> transport" where
  "setHeader res name v = res\<lparr>headers := (headers res)(name \<mapsto> v)\<rparr>"

definition writeSseEvent :: "transport \<Rightarrow> string \<Rightarrow> sse_data \<Rightarrow> transport" where
  "writeSseEvent res event data = res\<lparr>events := events res @ [(event, data)]\<rparr>"

text \<open>The callback of \<^verbatim>\<open>response.content.forEach\<close> (lines 41-74), on the pair of index and block.\<close>

fun streamBlock :: "runtime \<Rightarrow> transport \<Rightarrow> nat \<times> AnthropicContentBlock \<Rightarrow> transport" where
  "streamBlock rt res (index, block) =
     (let res1 = writeSseEvent res ''content_block_start'' (content_block_start index block);
          res2 = (case block of
                    Text t \<Rightarrow>
                      if length t > 0
                      then writeSseEvent res1 ''content_block_delta''
                             (content_block_delta index (text_delta t))
                      else res1
                  | ToolUse i n v \<Rightarrow>
                      writeSseEvent res1 ''content_block_delta''
                        (content_block_delta index
                           (input_json_delta (JSON_stringify rt (nullishOr v (JObj [])))))
                  | ToolResult b \<Rightarrow> res1)
      in writeSseEvent res2 ''content_block_stop'' (content_block_stop index))"

text \<open>\<^verbatim>\<open>streamAnthropicResponse\<close> (lines 21-90).\<close>

definition streamAnthropicResponse :: "runtime \<Rightarrow> transport \<Rightarrow> AnthropicResponse \<Rightarrow> transport" where
  "streamAnthropicResponse rt res response =
     (let res1 = res\<lparr>statusCode := Some 200\<rparr>;
          res2 = setHeader res1 ''Content-Type'' ''text/event-stream'';
          res3 = setHeader res2 ''Cache-Control'' ''no-cache, no-transform'';
          res4 = setHeader res3 ''Connection'' ''keep-alive'';
          res5 = writeSseEvent res4 ''message_start''
                   (message_start
                      \<lparr>resp_id = resp_id response, resp_model = resp_model response,
                       resp_content = [], resp_stop_reason = None, resp_stop_sequence = None,
                       resp_usage = resp_usage response\<rparr>);
          res6 = foldl (streamBlock rt) res5 (enumerate 0 (resp_content response));
          res7 = writeSseEvent res6 ''message_delta''
                   (message_delta (resp_stop_reason response) (resp_stop_sequence response)
                      (resp_usage response));
          res8 = writeSseEvent res7 ''message_stop'' message_stop
      in res8\<lparr>ended := True\<rparr>)"

section \<open>The handler of a messages request\<close>

text \<open>
  The handler of \<^verbatim>\<open>POST /v1/messages\<close> (server.ts, lines 120-181), from the point where
  the API key has been accepted. The outbound call is the parameter \<open>post\<close>; where
  \<^verbatim>\<open>axios.post\<close> rejects, \<open>UpstreamFailed\<close> carries the status and the message that the
  \<^verbatim>\<open>catch\<close> block derives from the rejection. \<open>posted\<close> lists the bodies handed to the
  outbound call.
\<close>

record ServerConfig =
  cfg_model :: "string option"
  cfg_reasoningEffort :: "string option"

datatype upstream_result =
    UpstreamFulfilled AzureResponsesResponseBody
  | UpstreamFailed nat string

datatype reply =
    JsonBody AnthropicResponse
  | JsonError nat string
  | EventStream transport

record exchange =
  reply :: reply
  posted :: "AzureResponsesRequestBody list"

definition postMessages ::
  "runtime \<Rightarrow> ServerConfig \<Rightarrow> (AzureResponsesRequestBody \<Rightarrow> upstream_result) \<Rightarrow>
   AnthropicRequest \<Rightarrow> exchange" where
  "postMessages rt serverConfig post body =
     (case anthropicToAzureRequest rt body (cfg_model serverConfig)
             (Some \<lparr>defaultReasoningEffort = cfg_reasoningEffort serverConfig\<rparr>) of
        Inl (Error message) \<Rightarrow> \<lparr>reply = JsonError 400 message, posted = []\<rparr>
      | Inr azureRequest \<Rightarrow>
          (case post azureRequest of
             UpstreamFailed st message \<Rightarrow>
               \<lparr>reply = JsonError st message, posted = [azureRequest]\<rparr>
           | UpstreamFulfilled data \<Rightarrow>
               let anthropicResponse = azureToAnthropicResponse rt data (az_model azureRequest)
               in if req_stream body = Some True
                  then \<lparr>reply = EventStream
                                   (streamAnthropicResponse rt freshTransport anthropicResponse),
                        posted = [azureRequest]\<rparr>
                  else \<lparr>reply = JsonBody anthropicResponse, posted = [azureRequest]\<rparr>))"

section \<open>What the code is compared with\<close>

text \<open>
  No definition of this section translates a function of the source. \<open>groupRuns\<close>,
  \<open>segmentItem\<close>, \<open>unsupportedBlock\<close>, \<open>modelAvailable\<close>, \<open>blockFrames\<close> and
  \<open>responseFrames\<close> follow the words of the specification; \<open>prependRun\<close>,
  \<open>encodeInput\<close>, \<open>toolUseOf\<close> and \<open>producedBlocks\<close> are closed forms of what a step of
  the code computes; \<open>rawBody\<close> and \<open>hasNullCall\<close> relate bodies of the declared type
  to bodies as they arrive. The theorems relate the functions of the source to them.
\<close>

subsection \<open>Runs of text blocks\<close>

text \<open>
  A message's blocks cut into segments: each maximal run of consecutive text blocks is
  one segment, each other block a segment of its own.
\<close>

datatype segment =
    TextRun "string list"
  | ToolUseItem string string js
  | ToolResultItem AnthropicToolResultBlock

fun groupRuns :: "AnthropicContentBlock list \<Rightarrow> segment list" where
  "groupRuns [] = []"
| "groupRuns (Text t # bs) =
     (case groupRuns bs of
        TextRun ts # segs \<Rightarrow> TextRun (t # ts) # segs
      | segs \<Rightarrow> TextRun [t] # segs)"
| "groupRuns (ToolUse i n v # bs) = ToolUseItem i n v # groupRuns bs"
| "groupRuns (ToolResult b # bs) = ToolResultItem b # groupRuns bs"

fun segmentBlocks :: "segment \<Rightarrow> AnthropicContentBlock list" where
  "segmentBlocks (TextRun ts) = map Text ts"
| "segmentBlocks (ToolUseItem i n v) = [ToolUse i n v]"
| "segmentBlocks (ToolResultItem b) = [ToolResult b]"

fun isTextRun :: "segment \<Rightarrow> bool" where
  "isTextRun (TextRun ts) = True"
| "isTextRun s = False"

text \<open>
  The segments of a list of blocks that follows a run of texts \<open>acc\<close> still to be
  flushed: the run joins a leading text run, or stands before the segments.
\<close>

definition prependRun :: "string list \<Rightarrow> segment list \<Rightarrow> segment list" where
  "prependRun acc segs =
     (if acc = [] then segs
      else (case segs of
              TextRun ts # rest \<Rightarrow> TextRun (acc @ ts) # rest
            | _ \<Rightarrow> TextRun acc # segs))"

text \<open>The input item that the specification gives for a segment of a message of role \<open>r\<close>.\<close>

fun segmentItem :: "runtime \<Rightarrow> role \<Rightarrow> segment \<Rightarrow> AzureInputItem" where
  "segmentItem rt r (TextRun ts) =
     AzureMessageInput r
       [AzureTextContentBlock (if r = Assistant then output_text else input_text) (concat ts)]"
| "segmentItem rt r (ToolUseItem i n v) =
     AzureFunctionCallInput i n (JSON_stringify rt (nullishOr v (JObj [])))"
| "segmentItem rt r (ToolResultItem b) =
     AzureFunctionCallOutput (tool_use_id b) (serializeToolResultOutput rt b)"

text \<open>The normalized blocks of a message, none if its content is rejected.\<close>

definition messageBlocks :: "runtime \<Rightarrow> AnthropicMessage \<Rightarrow> AnthropicContentBlock list" where
  "messageBlocks rt message =
     (case normalizeMessageContent rt (msg_content message) of
        Inr blocks \<Rightarrow> blocks
      | Inl e \<Rightarrow> [])"

definition messageItems :: "runtime \<Rightarrow> AnthropicMessage \<Rightarrow> AzureInputItem list" where
  "messageItems rt message =
     map (segmentItem rt (msg_role message)) (groupRuns (messageBlocks rt message))"

definition systemItems :: "runtime \<Rightarrow> AnthropicRequest \<Rightarrow> AzureInputItem list" where
  "systemItems rt body =
     (case req_system body of
        None \<Rightarrow> []
      | Some sys \<Rightarrow>
          if sys = [] then []
          else [AzureMessageInput System [AzureTextContentBlock input_text sys]])"

subsection \<open>Requests that are rejected\<close>

text \<open>
  A content block that is an object without a type discriminator or with one outside
  \<^verbatim>\<open>text\<close>, \<^verbatim>\<open>tool_use\<close>, \<^verbatim>\<open>tool_result\<close>; the message of the error it is rejected with;
  and a request model that is present and not blank.
\<close>

fun unsupportedBlock :: "content_item \<Rightarrow> bool" where
  "unsupportedBlock (ItemObject block) =
     (case rb_type block of
        None \<Rightarrow> True
      | Some ty \<Rightarrow> ty \<notin> set [''text'', ''tool_use'', ''tool_result''])"
| "unsupportedBlock item = False"

fun unsupportedMessage :: "content_item \<Rightarrow> string" where
  "unsupportedMessage (ItemObject block) =
     (case rb_type block of
        None \<Rightarrow> ''Unsupported content block format''
      | Some ty \<Rightarrow> ''Unsupported content block type: '' @ ty)"
| "unsupportedMessage item = ''Unsupported content block format''"

definition modelAvailable :: "string option \<Rightarrow> bool" where
  "modelAvailable m = (case m of None \<Rightarrow> False | Some s \<Rightarrow> trim s \<noteq> [])"

subsection \<open>The event sequence of a response\<close>

text \<open>
  The frames that the specification lists for a response, with \<open>encode\<close> for the text
  that the delta of a tool-use block carries.
\<close>

fun blockFrames :: "(js \<Rightarrow> string) \<Rightarrow> nat \<times> AnthropicContentBlock \<Rightarrow> sse_event list" where
  "blockFrames encode (index, block) =
     [(''content_block_start'', content_block_start index block)] @
     (case block of
        Text t \<Rightarrow>
          if t \<noteq> [] then [(''content_block_delta'', content_block_delta index (text_delta t))]
          else []
      | ToolUse i n v \<Rightarrow>
          [(''content_block_delta'', content_block_delta index (input_json_delta (encode v)))]
      | ToolResult b \<Rightarrow> []) @
     [(''content_block_stop'', content_block_stop index)]"

definition responseFrames :: "(js \<Rightarrow> string) \<Rightarrow> AnthropicResponse \<Rightarrow> sse_event list" where
  "responseFrames encode response =
     [(''message_start'',
       message_start (response\<lparr>resp_content := [], resp_stop_reason := None,
                                resp_stop_sequence := None\<rparr>))] @
     concat (map (blockFrames encode) (enumerate 0 (resp_content response))) @
     [(''message_delta'',
       message_delta (resp_stop_reason response) (resp_stop_sequence response)
         (resp_usage response)),
      (''message_stop'', message_stop)]"

text \<open>The text of the delta of a tool-use block as the code computes it: \<^verbatim>\<open>null\<close> and
  \<^verbatim>\<open>undefined\<close> are encoded as the empty object.\<close>

definition encodeInput :: "runtime \<Rightarrow> js \<Rightarrow> string" where
  "encodeInput rt v = JSON_stringify rt (nullishOr v (JObj []))"

subsection \<open>Tool-use blocks of a response\<close>

text \<open>The tool-use block that a tool call of a message is expanded to, and the ids of the
  tool-use blocks of a content list, in order.\<close>

definition toolUseOf :: "runtime \<Rightarrow> AzureToolCall \<Rightarrow> AnthropicContentBlock" where
  "toolUseOf rt call =
     (let callName = orElse (orElseOpt (tc_name call) (Option.bind (tc_function call) fn_name)) ''tool''
      in ToolUse (orElse (tc_id call) callName) callName
           (safeJsonParse rt
              (orElseOpt (tc_arguments call) (Option.bind (tc_function call) fn_arguments))
              (JObj [])))"

fun toolUseIds :: "AnthropicContentBlock list \<Rightarrow> string list" where
  "toolUseIds [] = []"
| "toolUseIds (ToolUse i n v # bs) = i # toolUseIds bs"
| "toolUseIds (b # bs) = toolUseIds bs"

text \<open>The blocks that one content block of a message item contributes.\<close>

fun producedBlocks :: "runtime \<Rightarrow> AzureContentBlock option \<Rightarrow> AnthropicContentBlock list" where
  "producedBlocks rt None = []"
| "producedBlocks rt (Some (AzureTextContentBlock ty txt)) =
     (if ty = output_text \<or> ty = summary_text then [Text txt] else [])"
| "producedBlocks rt (Some (AzureToolCallBlock calls)) = map (toolUseOf rt) (orElse calls [])"

subsection \<open>Response bodies of the declared type\<close>







section \<open>A runtime for evaluating examples\<close>

text \<open>
  The theorems below hold for every runtime. To evaluate the translators on concrete
  inputs, \<open>sampleRuntime\<close> prints values in the compact form of \<^verbatim>\<open>JSON.stringify\<close>
  (a member whose value is \<^verbatim>\<open>undefined\<close> is dropped, only the quote and the backslash
  of a string are escaped, and a number is printed as an integer or a fraction), and
  parses the few texts of \<open>sampleTexts\<close>, throwing on every other one.
\<close>

fun escapeChar :: "char \<Rightarrow> string" where
  "escapeChar c =
     (if c = CHR 0x22 then [CHR 0x5C, CHR 0x22]
      else if c = CHR 0x5C then [CHR 0x5C, CHR 0x5C]
      else [c])"

definition quoteString :: "string \<Rightarrow> string" where
  "quoteString s = [CHR 0x22] @ concat (map escapeChar s) @ [CHR 0x22]"

fun commaJoin :: "string list \<Rightarrow> string" where
  "commaJoin [] = []"
| "commaJoin [x] = x"
| "commaJoin (x # y # ys) = x @ '','' @ commaJoin (y # ys)"

definition showNumber :: "number \<Rightarrow> string" where
  "showNumber q =
     (let (n, d) = quotient_of q;
          digits = decimal (nat \<bar>n\<bar>) @ (if d = 1 then [] else ''/'' @ decimal (nat d))
      in if n < 0 then ''-'' @ digits else digits)"

fun jsonText :: "js \<Rightarrow> string" where
  "jsonText JUndefined = ''null''"
| "jsonText JNull = ''null''"
| "jsonText (JBool b) = (if b then ''true'' else ''false'')"
| "jsonText (JNum n) = showNumber n"
| "jsonText (JStr s) = quoteString s"
| "jsonText (JArr items) = ''['' @ commaJoin (map jsonText items) @ '']''"
| "jsonText (JObj members) =
     ''{'' @ commaJoin (map (\<lambda>(k, v). quoteString k @ '':'' @ jsonText v)
                          (filter (\<lambda>(k, v). v \<noteq> JUndefined) members)) @ ''}''"

definition sampleTexts :: "(string \<times> js) list" where
  "sampleTexts =
     [(''{}'', JObj []),
      (''null'', JNull),
      (''[]'', JArr []),
      (''true'', JBool True),
      (''42'', JNum 42)]"

definition sampleRuntime :: runtime where
  "sampleRuntime =
     \<lparr>JSON_stringify = jsonText, JSON_parse = map_of sampleTexts, String_of = jsonText\<rparr>"

text \<open>A request with no field set and a content block with no property, to build examples from.\<close>

definition emptyRequest :: AnthropicRequest where
  "emptyRequest =
     \<lparr>req_model = None, req_system = None, req_max_tokens = None, req_temperature = None,
      req_top_p = None, req_stop_sequences = None, req_stream = None, req_messages = None,
      req_metadata = None, req_tools = None, req_tool_choice = None, req_reasoning = None\<rparr>"

definition emptyBlock :: raw_block where
  "emptyBlock =
     \<lparr>rb_type = None, rb_text = None, rb_id = None, rb_name = None, rb_input = JUndefined,
      rb_tool_use_id = None, rb_content = None, rb_is_error = None, rb_status = None\<rparr>"

section \<open>How the response translation builds its state\<close>

text \<open>
  What the loops of \<^verbatim>\<open>azureToAnthropicResponse\<close> do to the content list, the stop reason
  and the set of seen ids, one loop at a time.
\<close>

lemma expandCall_content:
  "contentBlocks (expandCall rt st call) = contentBlocks st @ [toolUseOf rt call]"
  by (cases "tc_id call") (simp_all add: expandCall_def toolUseOf_def Let_def)

lemma expandCall_seen:
  "processedToolCallIds (expandCall rt st call) =
     insert (orElse (tc_id call)
               (orElse (orElseOpt (tc_name call) (Option.bind (tc_function call) fn_name)) ''tool''))
       (processedToolCallIds st)"
  by (simp add: expandCall_def Let_def)

lemma expandCall_stopReason: "stopReason (expandCall rt st call) = stopReason st"
  by (simp add: expandCall_def Let_def)

lemma expandCalls_content:
  "contentBlocks (foldl (expandCall rt) st calls) = contentBlocks st @ map (toolUseOf rt) calls"
  by (induction calls arbitrary: st) (simp_all add: expandCall_content)

lemma expandCalls_stopReason: "stopReason (foldl (expandCall rt) st calls) = stopReason st"
  by (induction calls arbitrary: st) (simp_all add: expandCall_stopReason)

lemma expandCalls_seen_mono:
  "processedToolCallIds st \<subseteq> processedToolCallIds (foldl (expandCall rt) st calls)"
proof (induction calls arbitrary: st)
  case Nil
  then show ?case by simp
next
  case (Cons c cs)
  have "processedToolCallIds st \<subseteq> processedToolCallIds (expandCall rt st c)"
    by (auto simp: expandCall_seen)
  then show ?case
    using Cons.IH [of "expandCall rt st c"] by auto
qed

lemma expandCalls_seen_member:
  "call \<in> set calls \<Longrightarrow> tc_id call = Some i \<Longrightarrow>
   i \<in> processedToolCallIds (foldl (expandCall rt) st calls)"
proof (induction calls arbitrary: st)
  case Nil
  then show ?case by simp
next
  case (Cons c cs)
  show ?case
  proof (cases "call = c")
    case True
    have "i \<in> processedToolCallIds (expandCall rt st c)"
      using Cons.prems(2) True by (simp add: expandCall_seen)
    then show ?thesis
      using expandCalls_seen_mono [of "expandCall rt st c" rt cs] by auto
  next
    case False
    then have "call \<in> set cs" using Cons.prems(1) by simp
    then show ?thesis using Cons.IH Cons.prems(2) by simp
  qed
qed

lemma convertBlock_content:
  "contentBlocks (convertBlock rt st block) = contentBlocks st @ producedBlocks rt block"
  by (induction rt st block rule: convertBlock.induct) (simp_all add: expandCalls_content)

lemma convertBlock_stopReason: "stopReason (convertBlock rt st block) = stopReason st"
  by (induction rt st block rule: convertBlock.induct) (simp_all add: expandCalls_stopReason)

lemma convertBlock_seen_mono:
  "processedToolCallIds st \<subseteq> processedToolCallIds (convertBlock rt st block)"
  by (induction rt st block rule: convertBlock.induct) (simp_all add: expandCalls_seen_mono)

lemma convertBlocks_content:
  "contentBlocks (foldl (convertBlock rt) st blocks) =
     contentBlocks st @ concat (map (producedBlocks rt) blocks)"
  by (induction blocks arbitrary: st) (simp_all add: convertBlock_content)

lemma convertBlocks_stopReason: "stopReason (foldl (convertBlock rt) st blocks) = stopReason st"
  by (induction blocks arbitrary: st) (simp_all add: convertBlock_stopReason)

lemma convertBlocks_seen_mono:
  "processedToolCallIds st \<subseteq> processedToolCallIds (foldl (convertBlock rt) st blocks)"
proof (induction blocks arbitrary: st)
  case Nil
  then show ?case by simp
next
  case (Cons b bs)
  show ?case
    using convertBlock_seen_mono [of st rt b] Cons.IH [of "convertBlock rt st b"] by auto
qed

lemma convertBlocks_seen_member:
  "Some (AzureToolCallBlock (Some calls)) \<in> set blocks \<Longrightarrow> call \<in> set calls \<Longrightarrow>
   tc_id call = Some i \<Longrightarrow> i \<in> processedToolCallIds (foldl (convertBlock rt) st blocks)"
proof (induction blocks arbitrary: st)
  case Nil
  then show ?case by simp
next
  case (Cons b bs)
  show ?case
  proof (cases "b = Some (AzureToolCallBlock (Some calls))")
    case True
    have "i \<in> processedToolCallIds (convertBlock rt st b)"
      using True Cons.prems(2,3) by (simp add: expandCalls_seen_member)
    then show ?thesis
      using convertBlocks_seen_mono [of "convertBlock rt st b" rt bs] by auto
  next
    case False
    then have "Some (AzureToolCallBlock (Some calls)) \<in> set bs" using Cons.prems(1) by simp
    then show ?thesis using Cons.IH Cons.prems(2,3) by simp
  qed
qed

lemma convertItem_seen_mono:
  "processedToolCallIds st \<subseteq> processedToolCallIds (convertItem rt st item)"
proof (induction rt st item rule: convertItem.induct)
  case (1 rt st)
  then show ?case by simp
next
  case (2 rt st message)
  show ?case
    using convertBlocks_seen_mono [of st rt "orElse (om_content message) []"]
    by (simp add: Let_def)
next
  case (3 rt st call)
  then show ?case by (auto simp: Let_def)
qed

lemma convertItems_seen_mono:
  "processedToolCallIds st \<subseteq> processedToolCallIds (foldl (convertItem rt) st items)"
proof (induction items arbitrary: st)
  case Nil
  then show ?case by simp
next
  case (Cons x xs)
  show ?case
    using convertItem_seen_mono [of st rt x] Cons.IH [of "convertItem rt st x"] by auto
qed

lemma convertItem_message_seen_member:
  "om_content m = Some blocks \<Longrightarrow> Some (AzureToolCallBlock (Some calls)) \<in> set blocks \<Longrightarrow>
   call \<in> set calls \<Longrightarrow> tc_id call = Some i \<Longrightarrow>
   i \<in> processedToolCallIds (convertItem rt st (Some (OutputMessage m)))"
  using convertBlocks_seen_member [of calls blocks call i rt st]
  by (simp add: Let_def)

lemma convertItems_seen_member:
  "Some (OutputMessage m) \<in> set items \<Longrightarrow> om_content m = Some blocks \<Longrightarrow>
   Some (AzureToolCallBlock (Some calls)) \<in> set blocks \<Longrightarrow>
   call \<in> set calls \<Longrightarrow> tc_id call = Some i \<Longrightarrow>
   i \<in> processedToolCallIds (foldl (convertItem rt) st items)"
proof (induction items arbitrary: st)
  case Nil
  then show ?case by simp
next
  case (Cons x xs)
  show ?case
  proof (cases "x = Some (OutputMessage m)")
    case True
    have "i \<in> processedToolCallIds (convertItem rt st x)"
      using True Cons.prems(2-5) convertItem_message_seen_member by simp
    then show ?thesis
      using convertItems_seen_mono [of "convertItem rt st x" rt xs] by auto
  next
    case False
    then have "Some (OutputMessage m) \<in> set xs" using Cons.prems(1) by simp
    then show ?thesis using Cons.IH Cons.prems(2-5) by simp
  qed
qed

lemma convertItem_duplicate:
  "orElseOpt (fc_call_id fc) (fc_id fc) = Some i \<Longrightarrow> i \<in> processedToolCallIds st \<Longrightarrow>
   convertItem rt st (Some (FunctionCall fc)) = st"
  by (simp add: Let_def)

lemma convertItem_message_content:
  "contentBlocks (convertItem rt st (Some (OutputMessage m))) =
     contentBlocks st @ concat (map (producedBlocks rt) (orElse (om_content m) []))"
  by (simp add: Let_def convertBlocks_content)

lemma toolUseOf_id:
  "tc_id call = Some i \<Longrightarrow> toolUseIds [toolUseOf rt call] = [i]"
  by (simp add: toolUseOf_def Let_def)

lemma toolUseIds_append: "toolUseIds (xs @ ys) = toolUseIds xs @ toolUseIds ys"
  by (induction xs rule: toolUseIds.induct) simp_all

lemma response_content:
  "resp_content (azureToAnthropicResponse rt data requestedModel) =
     (let produced = contentBlocks (foldl (convertItem rt)
                        \<lparr>contentBlocks = [], stopReason = None, processedToolCallIds = {}\<rparr>
                        (orElse (res_output data) []))
      in if produced = [] then [Text (orElse (res_output_text data) [])] else produced)"
  by (simp add: azureToAnthropicResponse_def Let_def)

section \<open>The stop reason of a translated response\<close>

text \<open>
  C1. The stop reason is meant to be the first explicit stop reason of a message item,
  else \<^verbatim>\<open>tool_use\<close> if any tool-use block was produced, else \<^verbatim>\<open>end_turn\<close>. The code
  settles the stop reason at the end of the first message item, from the tool calls
  seen up to there. For an output made of a message item with no stop reason and
  only text, followed by a top-level function call, it answers \<^verbatim>\<open>end_turn\<close> although it
  produces a tool-use block; with the same two items in the other order it answers
  \<^verbatim>\<open>tool_use\<close>. And the explicit stop reason of a second message item is lost when the
  first message item has none.
\<close>

theorem C1_text_message_then_function_call:
  "azureToAnthropicResponse sampleRuntime
     \<lparr>res_id = None, res_model = None,
      res_output = Some
        [Some (OutputMessage \<lparr>om_id = None, om_role = Assistant,
                 om_content = Some [Some (AzureTextContentBlock output_text ''Hi'')],
                 om_stop_reason = None\<rparr>),
         Some (FunctionCall \<lparr>fc_id = None, fc_call_id = Some ''call_1'',
                 fc_name = Some ''lookup'', fc_arguments = Some ''{}''\<rparr>)],
      res_usage = None, res_output_text = None\<rparr> ''gpt-5''
   = \<lparr>resp_id = ''proxy-response'', resp_model = ''gpt-5'',
      resp_content = [Text ''Hi'', ToolUse ''call_1'' ''lookup'' (JObj [])],
      resp_stop_reason = Some ''end_turn'', resp_stop_sequence = None,
      resp_usage = \<lparr>usage_input_tokens = 0, usage_output_tokens = 0\<rparr>\<rparr>
   \<and>
   azureToAnthropicResponse sampleRuntime
     \<lparr>res_id = None, res_model = None,
      res_output = Some
        [Some (FunctionCall \<lparr>fc_id = None, fc_call_id = Some ''call_1'',
                 fc_name = Some ''lookup'', fc_arguments = Some ''{}''\<rparr>),
         Some (OutputMessage \<lparr>om_id = None, om_role = Assistant,
                 om_content = Some [Some (AzureTextContentBlock output_text ''Hi'')],
                 om_stop_reason = None\<rparr>)],
      res_usage = None, res_output_text = None\<rparr> ''gpt-5''
   = \<lparr>resp_id = ''proxy-response'', resp_model = ''gpt-5'',
      resp_content = [ToolUse ''call_1'' ''lookup'' (JObj []), Text ''Hi''],
      resp_stop_reason = Some ''tool_use'', resp_stop_sequence = None,
      resp_usage = \<lparr>usage_input_tokens = 0, usage_output_tokens = 0\<rparr>\<rparr>
   \<and>
   azureToAnthropicResponse sampleRuntime
     \<lparr>res_id = None, res_model = None,
      res_output = Some
        [Some (OutputMessage \<lparr>om_id = None, om_role = Assistant,
                 om_content = Some [Some (AzureTextContentBlock summary_text ''Hm'')],
                 om_stop_reason = None\<rparr>),
         Some (OutputMessage \<lparr>om_id = None, om_role = Assistant,
                 om_content = Some [Some (AzureTextContentBlock output_text ''Hi'')],
                 om_stop_reason = Some ''max_tokens''\<rparr>)],
      res_usage = None, res_output_text = None\<rparr> ''gpt-5''
   = \<lparr>resp_id = ''proxy-response'', resp_model = ''gpt-5'',
      resp_content = [Text ''Hm'', Text ''Hi''],
      resp_stop_reason = Some ''end_turn'', resp_stop_sequence = None,
      resp_usage = \<lparr>usage_input_tokens = 0, usage_output_tokens = 0\<rparr>\<rparr>"
  by (simp add: azureToAnthropicResponse_def Let_def mapStopReason_def safeJsonParse_def
      sampleRuntime_def sampleTexts_def)

section \<open>Ids of tool-use blocks\<close>

text \<open>
  C2. A tool call without an id takes its name as id, and one without id and name is
  meant to get the placeholder \<^verbatim>\<open>tool_<n>\<close>. In the code the name of a call defaults to
  \<^verbatim>\<open>'tool'\<close> before the id is resolved, so the placeholder is never reached: a call of
  a message with neither id nor name, standing after one text block, gets the id
  \<^verbatim>\<open>tool\<close> and not \<^verbatim>\<open>tool_1\<close>; a top-level function call with no \<^verbatim>\<open>call_id\<close>, \<^verbatim>\<open>id\<close>
  or \<^verbatim>\<open>name\<close> gets \<^verbatim>\<open>tool\<close> and not \<^verbatim>\<open>tool_0\<close>; and of two such function calls the
  second is dropped as a duplicate of the first.
\<close>

theorem C2_anonymous_tool_call_ids:
  "resp_content (azureToAnthropicResponse sampleRuntime
     \<lparr>res_id = None, res_model = None,
      res_output = Some
        [Some (OutputMessage \<lparr>om_id = None, om_role = Assistant,
                 om_content = Some
                   [Some (AzureTextContentBlock output_text ''Hi''),
                    Some (AzureToolCallBlock (Some
                      [\<lparr>tc_id = None, tc_name = None, tc_arguments = Some ''{}'',
                        tc_function = None\<rparr>]))],
                 om_stop_reason = None\<rparr>)],
      res_usage = None, res_output_text = None\<rparr> ''gpt-5'')
   = [Text ''Hi'', ToolUse ''tool'' ''tool'' (JObj [])]
   \<and>
   resp_content (azureToAnthropicResponse sampleRuntime
     \<lparr>res_id = None, res_model = None,
      res_output = Some
        [Some (FunctionCall \<lparr>fc_id = None, fc_call_id = None, fc_name = None,
                 fc_arguments = Some ''{}''\<rparr>)],
      res_usage = None, res_output_text = None\<rparr> ''gpt-5'')
   = [ToolUse ''tool'' ''tool'' (JObj [])]
   \<and>
   resp_content (azureToAnthropicResponse sampleRuntime
     \<lparr>res_id = None, res_model = None,
      res_output = Some
        [Some (FunctionCall \<lparr>fc_id = None, fc_call_id = None, fc_name = None,
                 fc_arguments = Some ''{}''\<rparr>),
         Some (FunctionCall \<lparr>fc_id = None, fc_call_id = None, fc_name = None,
                 fc_arguments = Some ''[]''\<rparr>)],
      res_usage = None, res_output_text = None\<rparr> ''gpt-5'')
   = [ToolUse ''tool'' ''tool'' (JObj [])]"
  by (simp add: azureToAnthropicResponse_def Let_def mapStopReason_def safeJsonParse_def
      sampleRuntime_def sampleTexts_def expandCall_def)

section \<open>De-duplication of tool calls\<close>

text \<open>
  C7. When a call with id \<open>i\<close> stands in a tool-calls block of a message item and a
  later top-level function call resolves to the same id, the function call is
  skipped: the response is the one of the output without it. If the output is just
  that message with that one call, followed by the function call, the content is
  exactly one tool-use block, with id \<open>i\<close>.
\<close>

theorem C7_duplicate_function_call_skipped:
  assumes "tc_id call = Some i"
    and "orElseOpt (fc_call_id fc) (fc_id fc) = Some i"
    and "Some (OutputMessage m) \<in> set before"
    and "om_content m = Some blocks"
    and "Some (AzureToolCallBlock (Some calls)) \<in> set blocks"
    and "call \<in> set calls"
  shows "azureToAnthropicResponse rt
           (data\<lparr>res_output := Some (before @ Some (FunctionCall fc) # after)\<rparr>) requestedModel
         = azureToAnthropicResponse rt
           (data\<lparr>res_output := Some (before @ after)\<rparr>) requestedModel
         \<and> (before = [Some (OutputMessage m)] \<and> blocks = [Some (AzureToolCallBlock (Some calls))]
              \<and> calls = [call] \<and> after = [] \<longrightarrow>
            resp_content (azureToAnthropicResponse rt
              (data\<lparr>res_output := Some (before @ Some (FunctionCall fc) # after)\<rparr>)
              requestedModel) = [toolUseOf rt call]
            \<and> toolUseIds (resp_content (azureToAnthropicResponse rt
              (data\<lparr>res_output := Some (before @ Some (FunctionCall fc) # after)\<rparr>)
              requestedModel)) = [i])"
proof -
  let ?st0 = "\<lparr>contentBlocks = [], stopReason = None, processedToolCallIds = {}\<rparr>"
  have seen: "i \<in> processedToolCallIds (foldl (convertItem rt) ?st0 before)"
    using assms(3,4,5,6,1) by (rule convertItems_seen_member)
  have skip: "convertItem rt (foldl (convertItem rt) ?st0 before) (Some (FunctionCall fc))
              = foldl (convertItem rt) ?st0 before"
    using assms(2) seen by (rule convertItem_duplicate)
  have fold_eq: "foldl (convertItem rt) ?st0 (before @ Some (FunctionCall fc) # after)
                 = foldl (convertItem rt) ?st0 (before @ after)"
    by (simp del: convertItem.simps add: skip)
  have first: "azureToAnthropicResponse rt
           (data\<lparr>res_output := Some (before @ Some (FunctionCall fc) # after)\<rparr>) requestedModel
         = azureToAnthropicResponse rt
           (data\<lparr>res_output := Some (before @ after)\<rparr>) requestedModel"
    unfolding azureToAnthropicResponse_def
    by (simp del: convertItem.simps foldl_append foldl_Cons add: fold_eq Let_def)
  have second: "resp_content (azureToAnthropicResponse rt
              (data\<lparr>res_output := Some (before @ Some (FunctionCall fc) # after)\<rparr>)
              requestedModel) = [toolUseOf rt call]
            \<and> toolUseIds (resp_content (azureToAnthropicResponse rt
              (data\<lparr>res_output := Some (before @ Some (FunctionCall fc) # after)\<rparr>)
              requestedModel)) = [i]"
    if scen: "before = [Some (OutputMessage m)]" "blocks = [Some (AzureToolCallBlock (Some calls))]"
      "calls = [call]" "after = []"
  proof -
    have "resp_content (azureToAnthropicResponse rt
              (data\<lparr>res_output := Some (before @ after)\<rparr>) requestedModel) = [toolUseOf rt call]"
      using scen assms(4)
      by (simp add: response_content convertItem_message_content del: convertItem.simps)
    then show ?thesis using first toolUseOf_id [OF assms(1)] by simp
  qed
  show ?thesis using first second by blast
qed

theorem C7_duplicate_function_call_skipped_witness:
  "azureToAnthropicResponse sampleRuntime
     \<lparr>res_id = None, res_model = None,
      res_output = Some
        [Some (OutputMessage \<lparr>om_id = None, om_role = Assistant,
                 om_content = Some [Some (AzureToolCallBlock (Some
                   [\<lparr>tc_id = Some ''call_1'', tc_name = Some ''lookup'',
                     tc_arguments = Some ''{}'', tc_function = None\<rparr>]))],
                 om_stop_reason = None\<rparr>),
         Some (FunctionCall \<lparr>fc_id = Some ''fc_9'', fc_call_id = Some ''call_1'',
                 fc_name = Some ''lookup'', fc_arguments = Some ''{}''\<rparr>)],
      res_usage = None, res_output_text = None\<rparr> ''gpt-5''
   = \<lparr>resp_id = ''proxy-response'', resp_model = ''gpt-5'',
      resp_content = [ToolUse ''call_1'' ''lookup'' (JObj [])],
      resp_stop_reason = Some ''tool_use'', resp_stop_sequence = None,
      resp_usage = \<lparr>usage_input_tokens = 0, usage_output_tokens = 0\<rparr>\<rparr>"
  using C7_duplicate_function_call_skipped
    [where call = "\<lparr>tc_id = Some ''call_1'', tc_name = Some ''lookup'',
          tc_arguments = Some ''{}'', tc_function = None\<rparr>"
       and i = "''call_1''"
       and fc = "\<lparr>fc_id = Some ''fc_9'', fc_call_id = Some ''call_1'',
          fc_name = Some ''lookup'', fc_arguments = Some ''{}''\<rparr>"
       and m = "\<lparr>om_id = None, om_role = Assistant,
          om_content = Some [Some (AzureToolCallBlock (Some
            [\<lparr>tc_id = Some ''call_1'', tc_name = Some ''lookup'',
              tc_arguments = Some ''{}'', tc_function = None\<rparr>]))],
          om_stop_reason = None\<rparr>"
       and before = "[Some (OutputMessage \<lparr>om_id = None, om_role = Assistant,
          om_content = Some [Some (AzureToolCallBlock (Some
            [\<lparr>tc_id = Some ''call_1'', tc_name = Some ''lookup'',
              tc_arguments = Some ''{}'', tc_function = None\<rparr>]))],
          om_stop_reason = None\<rparr>)]"
       and blocks = "[Some (AzureToolCallBlock (Some
            [\<lparr>tc_id = Some ''call_1'', tc_name = Some ''lookup'',
              tc_arguments = Some ''{}'', tc_function = None\<rparr>]))]"
       and calls = "[\<lparr>tc_id = Some ''call_1'', tc_name = Some ''lookup'',
              tc_arguments = Some ''{}'', tc_function = None\<rparr>]"
       and rt = sampleRuntime
       and data = "\<lparr>res_id = None, res_model = None, res_output = None,
          res_usage = None, res_output_text = None\<rparr>"
       and after = "[]" and requestedModel = "''gpt-5''"]
  by (simp add: azureToAnthropicResponse_def Let_def mapStopReason_def safeJsonParse_def
      sampleRuntime_def sampleTexts_def expandCall_def)

text \<open>
  C10. A message item adds the blocks of its content whatever the set of seen ids
  holds: the set is not consulted there. Two calls with the same id, in one
  tool-calls block or in the blocks of two message items, give two tool-use blocks,
  in order, both with that id.
\<close>

theorem C10_message_tool_calls_never_deduplicated:
  "contentBlocks (convertItem rt (st\<lparr>processedToolCallIds := seen\<rparr>) (Some (OutputMessage m)))
     = contentBlocks st @ concat (map (producedBlocks rt) (orElse (om_content m) []))
   \<and> (tc_id c1 = Some i \<and> tc_id c2 = Some i \<longrightarrow>
       resp_content (azureToAnthropicResponse rt
         (data\<lparr>res_output := Some
            [Some (OutputMessage (m\<lparr>om_content := Some
               [Some (AzureToolCallBlock (Some [c1, c2]))]\<rparr>))]\<rparr>) requestedModel)
         = [toolUseOf rt c1, toolUseOf rt c2]
       \<and> resp_content (azureToAnthropicResponse rt
         (data\<lparr>res_output := Some
            [Some (OutputMessage (m\<lparr>om_content := Some
               [Some (AzureToolCallBlock (Some [c1]))]\<rparr>)),
             Some (OutputMessage (m'\<lparr>om_content := Some
               [Some (AzureToolCallBlock (Some [c2]))]\<rparr>))]\<rparr>) requestedModel)
         = [toolUseOf rt c1, toolUseOf rt c2]
       \<and> toolUseIds [toolUseOf rt c1, toolUseOf rt c2] = [i, i])"
proof -
  have indep: "contentBlocks (convertItem rt (st\<lparr>processedToolCallIds := seen\<rparr>)
                  (Some (OutputMessage m)))
     = contentBlocks st @ concat (map (producedBlocks rt) (orElse (om_content m) []))"
    by (simp add: convertItem_message_content del: convertItem.simps)
  have same: "resp_content (azureToAnthropicResponse rt
         (data\<lparr>res_output := Some
            [Some (OutputMessage (m\<lparr>om_content := Some
               [Some (AzureToolCallBlock (Some [c1, c2]))]\<rparr>))]\<rparr>) requestedModel)
         = [toolUseOf rt c1, toolUseOf rt c2]"
    by (simp add: response_content convertItem_message_content del: convertItem.simps)
  have different: "resp_content (azureToAnthropicResponse rt
         (data\<lparr>res_output := Some
            [Some (OutputMessage (m\<lparr>om_content := Some
               [Some (AzureToolCallBlock (Some [c1]))]\<rparr>)),
             Some (OutputMessage (m'\<lparr>om_content := Some
               [Some (AzureToolCallBlock (Some [c2]))]\<rparr>))]\<rparr>) requestedModel)
         = [toolUseOf rt c1, toolUseOf rt c2]"
    by (simp add: response_content convertItem_message_content del: convertItem.simps)
  have ids: "toolUseIds [toolUseOf rt c1, toolUseOf rt c2] = [i, i]"
    if "tc_id c1 = Some i" "tc_id c2 = Some i"
    using that by (simp add: toolUseOf_def Let_def)
  show ?thesis using indep same different ids by blast
qed

theorem C10_message_tool_calls_never_deduplicated_witness:
  "resp_content (azureToAnthropicResponse sampleRuntime
     \<lparr>res_id = None, res_model = None,
      res_output = Some
        [Some (OutputMessage \<lparr>om_id = None, om_role = Assistant,
           om_content = Some [Some (AzureToolCallBlock (Some
             [\<lparr>tc_id = Some ''call_1'', tc_name = Some ''lookup'',
               tc_arguments = Some ''{}'', tc_function = None\<rparr>,
              \<lparr>tc_id = Some ''call_1'', tc_name = Some ''fetch'',
               tc_arguments = Some ''[]'', tc_function = None\<rparr>]))],
           om_stop_reason = None\<rparr>)],
      res_usage = None, res_output_text = None\<rparr> ''gpt-5'')
   = [ToolUse ''call_1'' ''lookup'' (JObj []), ToolUse ''call_1'' ''fetch'' (JArr [])]
   \<and>
   resp_content (azureToAnthropicResponse sampleRuntime
     \<lparr>res_id = None, res_model = None,
      res_output = Some
        [Some (OutputMessage \<lparr>om_id = None, om_role = Assistant,
           om_content = Some [Some (AzureToolCallBlock (Some
             [\<lparr>tc_id = Some ''call_1'', tc_name = Some ''lookup'',
               tc_arguments = Some ''{}'', tc_function = None\<rparr>]))],
           om_stop_reason = None\<rparr>),
         Some (OutputMessage \<lparr>om_id = None, om_role = Assistant,
           om_content = Some [Some (AzureToolCallBlock (Some
             [\<lparr>tc_id = Some ''call_1'', tc_name = Some ''fetch'',
               tc_arguments = Some ''[]'', tc_function = None\<rparr>]))],
           om_stop_reason = None\<rparr>)],
      res_usage = None, res_output_text = None\<rparr> ''gpt-5'')
   = [ToolUse ''call_1'' ''lookup'' (JObj []), ToolUse ''call_1'' ''fetch'' (JArr [])]"
  using C10_message_tool_calls_never_deduplicated
    [where rt = sampleRuntime and i = "''call_1''"
       and ?c1.0 = "\<lparr>tc_id = Some ''call_1'', tc_name = Some ''lookup'',
               tc_arguments = Some ''{}'', tc_function = None\<rparr>"
       and ?c2.0 = "\<lparr>tc_id = Some ''call_1'', tc_name = Some ''fetch'',
               tc_arguments = Some ''[]'', tc_function = None\<rparr>"
       and m = "\<lparr>om_id = None, om_role = Assistant, om_content = None,
               om_stop_reason = None\<rparr>"
       and m' = "\<lparr>om_id = None, om_role = Assistant, om_content = None,
               om_stop_reason = None\<rparr>"
       and data = "\<lparr>res_id = None, res_model = None, res_output = None,
               res_usage = None, res_output_text = None\<rparr>"
       and requestedModel = "''gpt-5''"]
  by (simp add: toolUseOf_def safeJsonParse_def sampleRuntime_def sampleTexts_def)

section \<open>Failures of the response translation\<close>























section \<open>How the request translation builds its input\<close>

text \<open>
  The loop over the blocks of a message, followed by the final flush, appends one item
  per segment; the loop over the messages appends the items of each message in turn
  and fails where the content of a message is rejected.
\<close>

lemma flushText_input:
  "input (flushText r st) = input st @ map (segmentItem rt r) (prependRun (textAccumulator st) [])"
  by (simp add: flushText_def prependRun_def Let_def)

lemma flushText_accumulator: "textAccumulator (flushText r st) = []"
  by (simp add: flushText_def Let_def)

lemma prependRun_Text:
  "prependRun (acc @ [t]) (groupRuns bs) = prependRun acc (groupRuns (Text t # bs))"
  by (auto simp: prependRun_def split: list.splits segment.splits)

lemma pushBlocks_flush:
  "input (flushText r (foldl (pushBlock rt r) st bs)) =
     input st @ map (segmentItem rt r) (prependRun (textAccumulator st) (groupRuns bs))"
proof (induction bs arbitrary: st)
  case Nil
  show ?case by (simp add: flushText_input [of r st rt])
next
  case (Cons b bs)
  show ?case
  proof (cases b)
    case (Text t)
    have "input (flushText r (foldl (pushBlock rt r) st (b # bs))) =
          input st @ map (segmentItem rt r) (prependRun (textAccumulator st @ [t]) (groupRuns bs))"
      using Cons.IH [of "pushBlock rt r st (Text t)"] Text by simp
    then show ?thesis using Text by (simp only: prependRun_Text)
  next
    case (ToolUse i n v)
    let ?st1 = "pushBlock rt r st (ToolUse i n v)"
    have acc: "textAccumulator ?st1 = []"
      by (simp add: Let_def flushText_accumulator)
    have inp: "input ?st1 = input st @ map (segmentItem rt r) (prependRun (textAccumulator st) [])
                 @ [segmentItem rt r (ToolUseItem i n v)]"
      by (simp add: Let_def flushText_input [of r st rt])
    have "input (flushText r (foldl (pushBlock rt r) st (b # bs))) =
          input ?st1 @ map (segmentItem rt r) (prependRun [] (groupRuns bs))"
      using Cons.IH [of ?st1] ToolUse acc by simp
    then show ?thesis using ToolUse inp by (simp add: prependRun_def)
  next
    case (ToolResult x)
    let ?st1 = "pushBlock rt r st (ToolResult x)"
    have acc: "textAccumulator ?st1 = []"
      by (simp add: Let_def flushText_accumulator)
    have inp: "input ?st1 = input st @ map (segmentItem rt r) (prependRun (textAccumulator st) [])
                 @ [segmentItem rt r (ToolResultItem x)]"
      by (simp add: Let_def flushText_input [of r st rt])
    have "input (flushText r (foldl (pushBlock rt r) st (b # bs))) =
          input ?st1 @ map (segmentItem rt r) (prependRun [] (groupRuns bs))"
      using Cons.IH [of ?st1] ToolResult acc by simp
    then show ?thesis using ToolResult inp by (simp add: prependRun_def)
  qed
qed

lemma convertMessage_items:
  "normalizeMessageContent rt (msg_content message) = Inr blocks \<Longrightarrow>
   convertMessage rt inp message = Inr (inp @ messageItems rt message)"
  by (simp add: convertMessage_def messageItems_def messageBlocks_def pushBlocks_flush
      prependRun_def)

lemma convertMessage_fails:
  "normalizeMessageContent rt (msg_content message) = Inl e \<Longrightarrow>
   convertMessage rt inp message = Inl e"
  by (simp add: convertMessage_def)

lemma convertMessages_items:
  "convertMessages rt inp messages = Inr out \<Longrightarrow>
   out = inp @ concat (map (messageItems rt) messages) \<and>
   (\<forall>m \<in> set messages. normalizeMessageContent rt (msg_content m) = Inr (messageBlocks rt m))"
proof (induction messages arbitrary: inp)
  case Nil
  then show ?case by simp
next
  case (Cons m ms)
  show ?case
  proof (cases "normalizeMessageContent rt (msg_content m)")
    case (Inl e)
    then show ?thesis using Cons.prems by (simp add: convertMessage_fails)
  next
    case (Inr blocks)
    then have step: "convertMessage rt inp m = Inr (inp @ messageItems rt m)"
      by (rule convertMessage_items)
    then have "convertMessages rt (inp @ messageItems rt m) ms = Inr out"
      using Cons.prems by simp
    then have "out = (inp @ messageItems rt m) @ concat (map (messageItems rt) ms) \<and>
       (\<forall>m \<in> set ms. normalizeMessageContent rt (msg_content m) = Inr (messageBlocks rt m))"
      by (rule Cons.IH)
    then show ?thesis using Inr by (simp add: messageBlocks_def)
  qed
qed

lemma convertMessages_succeeds:
  "(\<forall>m \<in> set messages. \<exists>blocks. normalizeMessageContent rt (msg_content m) = Inr blocks) \<Longrightarrow>
   convertMessages rt inp messages = Inr (inp @ concat (map (messageItems rt) messages))"
proof (induction messages arbitrary: inp)
  case Nil
  then show ?case by simp
next
  case (Cons m ms)
  obtain blocks where "normalizeMessageContent rt (msg_content m) = Inr blocks"
    using Cons.prems by auto
  then have "convertMessage rt inp m = Inr (inp @ messageItems rt m)"
    by (rule convertMessage_items)
  then show ?case using Cons.IH [of "inp @ messageItems rt m"] Cons.prems by simp
qed

lemma convertMessages_fails:
  "m \<in> set messages \<Longrightarrow> normalizeMessageContent rt (msg_content m) = Inl e \<Longrightarrow>
   \<exists>e'. convertMessages rt inp messages = Inl e'"
proof (induction messages arbitrary: inp)
  case Nil
  then show ?case by simp
next
  case (Cons x xs)
  show ?case
  proof (cases "convertMessage rt inp x")
    case (Inl e1)
    then show ?thesis by simp
  next
    case (Inr inp1)
    then have "x \<noteq> m" using Cons.prems(2) by (auto simp: convertMessage_def)
    then have "m \<in> set xs" using Cons.prems(1) by simp
    then show ?thesis using Cons.IH Cons.prems(2) Inr by simp
  qed
qed

lemma groupRuns_blocks: "concat (map segmentBlocks (groupRuns bs)) = bs"
  by (induction bs rule: groupRuns.induct) (auto split: list.splits segment.splits)

lemma groupRuns_no_empty_run: "TextRun [] \<notin> set (groupRuns bs)"
  by (induction bs rule: groupRuns.induct) (auto split: list.splits segment.splits)

lemma groupRuns_maximal:
  "Suc k < length (groupRuns bs) \<Longrightarrow>
   \<not> (isTextRun (groupRuns bs ! k) \<and> isTextRun (groupRuns bs ! Suc k))"
proof (induction bs arbitrary: k rule: groupRuns.induct)
  case 1
  then show ?case by simp
next
  case (2 t bs)
  show ?case
  proof (cases "groupRuns bs")
    case Nil
    then show ?thesis using 2 by simp
  next
    case (Cons s segs)
    show ?thesis
    proof (cases s)
      case (TextRun ts)
      then have eq: "groupRuns (Text t # bs) = TextRun (t # ts) # segs" using Cons by simp
      show ?thesis
      proof (cases k)
        case 0
        have "Suc 0 < length (groupRuns bs)" using "2.prems" eq Cons 0 by simp
        then have "\<not> (isTextRun (groupRuns bs ! 0) \<and> isTextRun (groupRuns bs ! Suc 0))"
          by (rule "2.IH")
        then show ?thesis using eq Cons TextRun 0 by simp
      next
        case (Suc j)
        have "Suc (Suc j) < length (groupRuns bs)" using "2.prems" eq Cons Suc by simp
        then have "\<not> (isTextRun (groupRuns bs ! Suc j) \<and> isTextRun (groupRuns bs ! Suc (Suc j)))"
          by (rule "2.IH")
        then show ?thesis using eq Cons Suc by simp
      qed
    next
      case (ToolUseItem i n v)
      then have eq: "groupRuns (Text t # bs) = TextRun [t] # groupRuns bs" using Cons by simp
      show ?thesis
      proof (cases k)
        case 0
        then show ?thesis using eq Cons ToolUseItem by simp
      next
        case (Suc j)
        have "Suc j < length (groupRuns bs)" using "2.prems" eq Suc by simp
        then have "\<not> (isTextRun (groupRuns bs ! j) \<and> isTextRun (groupRuns bs ! Suc j))"
          by (rule "2.IH")
        then show ?thesis using eq Suc by simp
      qed
    next
      case (ToolResultItem b)
      then have eq: "groupRuns (Text t # bs) = TextRun [t] # groupRuns bs" using Cons by simp
      show ?thesis
      proof (cases k)
        case 0
        then show ?thesis using eq Cons ToolResultItem by simp
      next
        case (Suc j)
        have "Suc j < length (groupRuns bs)" using "2.prems" eq Suc by simp
        then have "\<not> (isTextRun (groupRuns bs ! j) \<and> isTextRun (groupRuns bs ! Suc j))"
          by (rule "2.IH")
        then show ?thesis using eq Suc by simp
      qed
    qed
  qed
next
  case (3 i n v bs)
  show ?case
  proof (cases k)
    case 0
    then show ?thesis by simp
  next
    case (Suc j)
    have "Suc j < length (groupRuns bs)" using "3.prems" Suc by simp
    then have "\<not> (isTextRun (groupRuns bs ! j) \<and> isTextRun (groupRuns bs ! Suc j))"
      by (rule "3.IH")
    then show ?thesis using Suc by simp
  qed
next
  case (4 b bs)
  show ?case
  proof (cases k)
    case 0
    then show ?thesis by simp
  next
    case (Suc j)
    have "Suc j < length (groupRuns bs)" using "4.prems" Suc by simp
    then have "\<not> (isTextRun (groupRuns bs ! j) \<and> isTextRun (groupRuns bs ! Suc j))"
      by (rule "4.IH")
    then show ?thesis using Suc by simp
  qed
qed

lemma systemItems_eq:
  "(case req_system body of
      None \<Rightarrow> []
    | Some sys \<Rightarrow>
        if sys = [] then []
        else [AzureMessageInput System
                [AzureTextContentBlock input_text (normalizeToString rt (JStr sys))]])
   = systemItems rt body"
  by (simp add: systemItems_def split: option.splits)

lemma request_succeeds:
  assumes "anthropicToAzureRequest rt body fallbackModel options = Inr request"
  shows "\<exists>messages. req_messages body = Some messages \<and> messages \<noteq> [] \<and>
           convertMessages rt (systemItems rt body) messages = Inr (az_input request)"
proof (cases "req_messages body")
  case None
  then show ?thesis using assms by (simp add: anthropicToAzureRequest_def)
next
  case (Some messages)
  show ?thesis
  proof (cases messages)
    case Nil
    then show ?thesis using assms Some by (simp add: anthropicToAzureRequest_def)
  next
    case (Cons m ms)
    show ?thesis
    proof (cases "convertMessages rt (systemItems rt body) messages")
      case (Inl e)
      then show ?thesis
        using assms Some Cons
        by (simp add: anthropicToAzureRequest_def systemItems_eq del: convertMessages.simps)
    next
      case (Inr inp)
      then have "az_input request = inp"
        using assms Some Cons
        by (auto simp add: anthropicToAzureRequest_def systemItems_eq Let_def
            simp del: convertMessages.simps split: if_splits)
      then show ?thesis using Some Cons Inr by simp
    qed
  qed
qed

lemma request_input:
  assumes "anthropicToAzureRequest rt body fallbackModel options = Inr request"
    and "req_messages body = Some messages"
  shows "az_input request = systemItems rt body @ concat (map (messageItems rt) messages)"
    and "\<forall>m \<in> set messages.
           normalizeMessageContent rt (msg_content m) = Inr (messageBlocks rt m)"
proof -
  have "convertMessages rt (systemItems rt body) messages = Inr (az_input request)"
    using request_succeeds [OF assms(1)] assms(2) by auto
  then have both: "az_input request = systemItems rt body @ concat (map (messageItems rt) messages) \<and>
     (\<forall>m \<in> set messages. normalizeMessageContent rt (msg_content m) = Inr (messageBlocks rt m))"
    by (rule convertMessages_items)
  show "az_input request = systemItems rt body @ concat (map (messageItems rt) messages)"
    using both by simp
  show "\<forall>m \<in> set messages.
           normalizeMessageContent rt (msg_content m) = Inr (messageBlocks rt m)"
    using both by simp
qed

lemmas request_defs =
  anthropicToAzureRequest_def convertMessage_def flushText_def serializeToolResultOutput_def
  toolResultPayload_def anthropicToolsToAzure_def anthropicToolChoiceToAzure_def
  strOrUndefined_def emptyRequest_def emptyBlock_def trim_def isWhiteSpace_def Let_def
  sampleRuntime_def sampleTexts_def quoteString_def

section \<open>Runs of text blocks become one item\<close>

text \<open>
  C5. When the translation succeeds, its input is the system item, if any, followed by
  the items of each message in order. The items of a message are those of the
  segments of its normalized blocks, in order: one message item per maximal run of
  consecutive text blocks, holding the concatenation of the run's texts as
  \<^verbatim>\<open>output_text\<close> for the assistant role and \<^verbatim>\<open>input_text\<close> otherwise. The segments
  are the blocks again when flattened, none of them is an empty run and no two
  neighbours are both runs; flushing an empty accumulator changes nothing.
\<close>

theorem C5_text_runs_merged:
  assumes "anthropicToAzureRequest rt body fallbackModel options = Inr request"
    and "req_messages body = Some messages"
  shows "az_input request = systemItems rt body @ concat (map (messageItems rt) messages)
    \<and> (\<forall>m \<in> set messages.
          normalizeMessageContent rt (msg_content m) = Inr (messageBlocks rt m)
        \<and> messageItems rt m = map (segmentItem rt (msg_role m)) (groupRuns (messageBlocks rt m))
        \<and> concat (map segmentBlocks (groupRuns (messageBlocks rt m))) = messageBlocks rt m
        \<and> TextRun [] \<notin> set (groupRuns (messageBlocks rt m))
        \<and> (\<forall>k. Suc k < length (groupRuns (messageBlocks rt m)) \<longrightarrow>
               \<not> (isTextRun (groupRuns (messageBlocks rt m) ! k)
                  \<and> isTextRun (groupRuns (messageBlocks rt m) ! Suc k)))
        \<and> (\<forall>ts. segmentItem rt (msg_role m) (TextRun ts) =
               AzureMessageInput (msg_role m)
                 [AzureTextContentBlock
                    (if msg_role m = Assistant then output_text else input_text) (concat ts)]))
    \<and> (\<forall>r st. textAccumulator st = [] \<longrightarrow> flushText r st = st)"
proof -
  have items: "az_input request = systemItems rt body @ concat (map (messageItems rt) messages)"
    using assms by (rule request_input(1))
  have normal: "\<forall>m \<in> set messages.
           normalizeMessageContent rt (msg_content m) = Inr (messageBlocks rt m)"
    using assms by (rule request_input(2))
  have noop: "\<forall>r st. textAccumulator st = [] \<longrightarrow> flushText r st = st"
    by (simp add: flushText_def)
  show ?thesis
    using items normal noop groupRuns_blocks groupRuns_no_empty_run groupRuns_maximal
    by (simp add: messageItems_def)
qed

theorem C5_text_runs_merged_witness:
  "anthropicToAzureRequest sampleRuntime
     (emptyRequest\<lparr>req_messages := Some
        [\<lparr>msg_role = User, msg_content = ContentItems
            [ItemObject (emptyBlock\<lparr>rb_type := Some ''text'', rb_text := Some ''Hel''\<rparr>),
             ItemString ''lo'',
             ItemObject (emptyBlock\<lparr>rb_type := Some ''tool_result'',
               rb_tool_use_id := Some ''t1'', rb_content := Some (ContentArray [''42''])\<rparr>),
             ItemObject (emptyBlock\<lparr>rb_type := Some ''text'', rb_text := Some ''?''\<rparr>)]\<rparr>,
         \<lparr>msg_role = Assistant, msg_content = ContentItems
            [ItemString ''O'', ItemString ''K'']\<rparr>]\<rparr>)
     (Some ''gpt-5'') None
   = Inr \<lparr>az_model = ''gpt-5'',
          az_input =
            [AzureMessageInput User [AzureTextContentBlock input_text ''Hello''],
             AzureFunctionCallOutput ''t1'' ''42'',
             AzureMessageInput User [AzureTextContentBlock input_text ''?''],
             AzureMessageInput Assistant [AzureTextContentBlock output_text ''OK'']],
          az_temperature = None, az_top_p = None, az_stop = None, az_max_output_tokens = None,
          az_metadata = None, az_tools = None, az_tool_choice = None, az_reasoning = None\<rparr>"
proof -
  let ?messages = "[\<lparr>msg_role = User, msg_content = ContentItems
            [ItemObject (emptyBlock\<lparr>rb_type := Some ''text'', rb_text := Some ''Hel''\<rparr>),
             ItemString ''lo'',
             ItemObject (emptyBlock\<lparr>rb_type := Some ''tool_result'',
               rb_tool_use_id := Some ''t1'', rb_content := Some (ContentArray [''42''])\<rparr>),
             ItemObject (emptyBlock\<lparr>rb_type := Some ''text'', rb_text := Some ''?''\<rparr>)]\<rparr>,
         \<lparr>msg_role = Assistant, msg_content = ContentItems
            [ItemString ''O'', ItemString ''K'']\<rparr>]"
  let ?body = "emptyRequest\<lparr>req_messages := Some ?messages\<rparr>"
  let ?request = "\<lparr>az_model = ''gpt-5'',
          az_input =
            [AzureMessageInput User [AzureTextContentBlock input_text ''Hello''],
             AzureFunctionCallOutput ''t1'' ''42'',
             AzureMessageInput User [AzureTextContentBlock input_text ''?''],
             AzureMessageInput Assistant [AzureTextContentBlock output_text ''OK'']],
          az_temperature = None, az_top_p = None, az_stop = None, az_max_output_tokens = None,
          az_metadata = None, az_tools = None, az_tool_choice = None, az_reasoning = None\<rparr>"
  have ok: "anthropicToAzureRequest sampleRuntime ?body (Some ''gpt-5'') None = Inr ?request"
    by (simp add: request_defs)
  have msgs: "req_messages ?body = Some ?messages" by simp
  show ?thesis
    using C5_text_runs_merged [OF ok msgs] ok by simp
qed

section \<open>Tool results become function call outputs\<close>

lemma groupRuns_tool_result:
  "ToolResult b \<in> set bs \<Longrightarrow> ToolResultItem b \<in> set (groupRuns bs)"
  by (induction bs rule: groupRuns.induct) (auto split: list.splits segment.splits)

lemma request_tool_result:
  assumes "anthropicToAzureRequest rt body fallbackModel options = Inr request"
    and "req_messages body = Some messages"
    and "m \<in> set messages"
    and "ToolResult b \<in> set (messageBlocks rt m)"
  shows "AzureFunctionCallOutput (tool_use_id b) (serializeToolResultOutput rt b)
           \<in> set (az_input request)"
proof -
  have "ToolResultItem b \<in> set (groupRuns (messageBlocks rt m))"
    using assms(4) by (rule groupRuns_tool_result)
  then have "segmentItem rt (msg_role m) (ToolResultItem b) \<in> set (messageItems rt m)"
    unfolding messageItems_def set_map by (rule imageI)
  then have "AzureFunctionCallOutput (tool_use_id b) (serializeToolResultOutput rt b)
               \<in> set (concat (map (messageItems rt) messages))"
    using assms(3) by auto
  then show ?thesis
    using request_input(1) [OF assms(1,2)] by simp
qed

text \<open>
  C6. The output of a tool result is its \<^verbatim>\<open>content\<close> when that is a string; the
  concatenation of the texts of its entries when it is an array; else its \<^verbatim>\<open>text\<close>
  when that is a string; else the JSON text of an object with \<^verbatim>\<open>tool_use_id\<close> and
  those of \<^verbatim>\<open>content\<close>, \<^verbatim>\<open>is_error\<close>, \<^verbatim>\<open>status\<close> that are present. A content of
  one text entry \<^verbatim>\<open>42\<close> gives the output \<^verbatim>\<open>42\<close>. A \<^verbatim>\<open>tool_result\<close> object with a
  \<^verbatim>\<open>tool_use_id\<close> is normalized to a tool-result block with the same fields, the loop
  pushes for it a function call output with that id and that output after flushing
  the pending text, and the item is in the input of every successful translation
  of a request with that block.
\<close>

theorem C6_tool_result_output:
  "(tr_content b = Some (ContentString s) \<longrightarrow> serializeToolResultOutput rt b = s)
   \<and> (tr_content b = Some (ContentArray parts) \<longrightarrow> serializeToolResultOutput rt b = concat parts)
   \<and> ((tr_content b = None \<or> tr_content b = Some (ContentOther v)) \<and> tr_text b = Some t \<longrightarrow>
        serializeToolResultOutput rt b = t)
   \<and> (tr_content b = None \<and> tr_text b = None \<longrightarrow>
        serializeToolResultOutput rt b =
          JSON_stringify rt
            (JObj ([(''tool_use_id'', JStr (tool_use_id b))] @
                   (case is_error b of Some e \<Rightarrow> [(''is_error'', JBool e)] | None \<Rightarrow> []) @
                   (case status b of Some u \<Rightarrow> [(''status'', JStr u)] | None \<Rightarrow> []))))
   \<and> (tr_content b = Some (ContentOther v) \<and> v \<noteq> JUndefined \<and> tr_text b = None \<longrightarrow>
        serializeToolResultOutput rt b =
          JSON_stringify rt
            (JObj ([(''tool_use_id'', JStr (tool_use_id b)), (''content'', v)] @
                   (case is_error b of Some e \<Rightarrow> [(''is_error'', JBool e)] | None \<Rightarrow> []) @
                   (case status b of Some u \<Rightarrow> [(''status'', JStr u)] | None \<Rightarrow> []))))
   \<and> serializeToolResultOutput rt
         \<lparr>tool_use_id = i, tr_content = Some (ContentArray [''42'']), tr_text = t',
          is_error = e', status = u'\<rparr> = ''42''
   \<and> (rb_type raw = Some ''tool_result'' \<and> rb_tool_use_id raw = Some i \<longrightarrow>
        normalizeItem rt (ItemObject raw) =
          Inr (ToolResult \<lparr>tool_use_id = i, tr_content = rb_content raw, tr_text = rb_text raw,
                           is_error = rb_is_error raw, status = rb_status raw\<rparr>))
   \<and> input (pushBlock rt r st (ToolResult b)) =
        input (flushText r st) @
          [AzureFunctionCallOutput (tool_use_id b) (serializeToolResultOutput rt b)]
   \<and> (anthropicToAzureRequest rt body fallbackModel options = Inr request
        \<and> req_messages body = Some messages \<and> m \<in> set messages
        \<and> ToolResult b \<in> set (messageBlocks rt m) \<longrightarrow>
        AzureFunctionCallOutput (tool_use_id b) (serializeToolResultOutput rt b)
          \<in> set (az_input request))"
proof -
  have a: "tr_content b = Some (ContentString s) \<longrightarrow> serializeToolResultOutput rt b = s"
    by (simp add: serializeToolResultOutput_def)
  have parts: "concat (map (\<lambda>t. normalizeToString rt (JStr t)) ps) = concat ps" for ps
    by (induction ps) simp_all
  have b: "tr_content b = Some (ContentArray parts) \<longrightarrow>
             serializeToolResultOutput rt b = concat parts"
    by (simp add: serializeToolResultOutput_def parts)
  have c: "(tr_content b = None \<or> tr_content b = Some (ContentOther v)) \<and> tr_text b = Some t \<longrightarrow>
        serializeToolResultOutput rt b = t"
    by (auto simp: serializeToolResultOutput_def toolResultPayload_def)
  have d1: "tr_content b = None \<and> tr_text b = None \<longrightarrow>
        serializeToolResultOutput rt b =
          JSON_stringify rt
            (JObj ([(''tool_use_id'', JStr (tool_use_id b))] @
                   (case is_error b of Some e \<Rightarrow> [(''is_error'', JBool e)] | None \<Rightarrow> []) @
                   (case status b of Some u \<Rightarrow> [(''status'', JStr u)] | None \<Rightarrow> [])))"
    by (simp add: serializeToolResultOutput_def toolResultPayload_def)
  have d2: "tr_content b = Some (ContentOther v) \<and> v \<noteq> JUndefined \<and> tr_text b = None \<longrightarrow>
        serializeToolResultOutput rt b =
          JSON_stringify rt
            (JObj ([(''tool_use_id'', JStr (tool_use_id b)), (''content'', v)] @
                   (case is_error b of Some e \<Rightarrow> [(''is_error'', JBool e)] | None \<Rightarrow> []) @
                   (case status b of Some u \<Rightarrow> [(''status'', JStr u)] | None \<Rightarrow> [])))"
    by (simp add: serializeToolResultOutput_def toolResultPayload_def)
  have ex: "serializeToolResultOutput rt
         \<lparr>tool_use_id = i, tr_content = Some (ContentArray [''42'']), tr_text = t',
          is_error = e', status = u'\<rparr> = ''42''"
    by (simp add: serializeToolResultOutput_def)
  have norm: "rb_type raw = Some ''tool_result'' \<and> rb_tool_use_id raw = Some i \<longrightarrow>
        normalizeItem rt (ItemObject raw) =
          Inr (ToolResult \<lparr>tool_use_id = i, tr_content = rb_content raw, tr_text = rb_text raw,
                           is_error = rb_is_error raw, status = rb_status raw\<rparr>)"
    by simp
  have push: "input (pushBlock rt r st (ToolResult b)) =
        input (flushText r st) @
          [AzureFunctionCallOutput (tool_use_id b) (serializeToolResultOutput rt b)]"
    by (simp add: Let_def)
  have whole: "anthropicToAzureRequest rt body fallbackModel options = Inr request
        \<and> req_messages body = Some messages \<and> m \<in> set messages
        \<and> ToolResult b \<in> set (messageBlocks rt m) \<longrightarrow>
        AzureFunctionCallOutput (tool_use_id b) (serializeToolResultOutput rt b)
          \<in> set (az_input request)"
    using request_tool_result by blast
  show ?thesis
    using a b c d1 d2 ex norm push whole by (intro conjI)
qed

theorem C6_tool_result_output_witness:
  \<open>serializeToolResultOutput sampleRuntime
     \<lparr>tool_use_id = ''t1'', tr_content = None, tr_text = None, is_error = Some True,
      status = Some ''failed''\<rparr>
   = ''{"tool_use_id":"t1","is_error":true,"status":"failed"}''
   \<and> serializeToolResultOutput sampleRuntime
     \<lparr>tool_use_id = ''t1'', tr_content = Some (ContentOther (JObj [(''n'', JNull)])),
      tr_text = None, is_error = None, status = None\<rparr>
   = ''{"tool_use_id":"t1","content":{"n":null}}''
   \<and> serializeToolResultOutput sampleRuntime
     \<lparr>tool_use_id = ''t1'', tr_content = Some (ContentString ''done''),
      tr_text = Some ''other'', is_error = None, status = None\<rparr>
   = ''done''
   \<and> serializeToolResultOutput sampleRuntime
     \<lparr>tool_use_id = ''t1'', tr_content = None,
      tr_text = Some ''other'', is_error = None, status = None\<rparr>
   = ''other''
   \<and> AzureFunctionCallOutput ''t1'' ''42'' \<in> set (az_input
     \<lparr>az_model = ''gpt-5'',
      az_input =
        [AzureMessageInput User [AzureTextContentBlock input_text ''Result:''],
         AzureFunctionCallOutput ''t1'' ''42''],
      az_temperature = None, az_top_p = None, az_stop = None, az_max_output_tokens = None,
      az_metadata = None, az_tools = None, az_tool_choice = None, az_reasoning = None\<rparr>)
   \<and> anthropicToAzureRequest sampleRuntime
     (emptyRequest\<lparr>req_messages := Some
        [\<lparr>msg_role = User, msg_content = ContentItems
            [ItemString ''Result:'',
             ItemObject (emptyBlock\<lparr>rb_type := Some ''tool_result'',
               rb_tool_use_id := Some ''t1'', rb_content := Some (ContentArray [''42''])\<rparr>)]\<rparr>]\<rparr>)
     (Some ''gpt-5'') None
   = Inr \<lparr>az_model = ''gpt-5'',
      az_input =
        [AzureMessageInput User [AzureTextContentBlock input_text ''Result:''],
         AzureFunctionCallOutput ''t1'' ''42''],
      az_temperature = None, az_top_p = None, az_stop = None, az_max_output_tokens = None,
      az_metadata = None, az_tools = None, az_tool_choice = None, az_reasoning = None\<rparr>\<close>
proof -
  let ?m = "\<lparr>msg_role = User, msg_content = ContentItems
            [ItemString ''Result:'',
             ItemObject (emptyBlock\<lparr>rb_type := Some ''tool_result'',
               rb_tool_use_id := Some ''t1'', rb_content := Some (ContentArray [''42''])\<rparr>)]\<rparr>"
  let ?body = "emptyRequest\<lparr>req_messages := Some [?m]\<rparr>"
  let ?b = "\<lparr>tool_use_id = ''t1'', tr_content = Some (ContentArray [''42'']), tr_text = None,
             is_error = None, status = None\<rparr>"
  let ?request = "\<lparr>az_model = ''gpt-5'',
      az_input =
        [AzureMessageInput User [AzureTextContentBlock input_text ''Result:''],
         AzureFunctionCallOutput ''t1'' ''42''],
      az_temperature = None, az_top_p = None, az_stop = None, az_max_output_tokens = None,
      az_metadata = None, az_tools = None, az_tool_choice = None, az_reasoning = None\<rparr>"
  have ok: "anthropicToAzureRequest sampleRuntime ?body (Some ''gpt-5'') None = Inr ?request"
    by (simp add: request_defs)
  have blocks: "ToolResult ?b \<in> set (messageBlocks sampleRuntime ?m)"
    by (simp add: messageBlocks_def emptyBlock_def)
  have "AzureFunctionCallOutput (tool_use_id ?b) (serializeToolResultOutput sampleRuntime ?b)
          \<in> set (az_input ?request)"
    using C6_tool_result_output
      [where rt = sampleRuntime and b = ?b and body = ?body and fallbackModel = "Some ''gpt-5''"
         and options = None and request = ?request and messages = "[?m]" and m = ?m]
      ok blocks
    by simp
  then show ?thesis
    using ok by (simp add: request_defs)
qed

section \<open>Requests rejected as a whole\<close>

lemma unsupported_rejected:
  "unsupportedBlock item \<Longrightarrow> normalizeItem rt item = Inl (Error (unsupportedMessage item))"
  by (cases item) (auto split: option.splits)

lemma mapOrThrow_fails:
  "x \<in> set xs \<Longrightarrow> f x = Inl e \<Longrightarrow> \<exists>e'. mapOrThrow f xs = Inl e'"
  by (induction xs) (auto split: sum.splits)

lemma dropWhile_all_iff:
  "(\<forall>c \<in> set (dropWhile P s). P c) \<longleftrightarrow> dropWhile P s = []"
proof
  assume all: "\<forall>c \<in> set (dropWhile P s). P c"
  show "dropWhile P s = []"
  proof (rule ccontr)
    assume rest: "dropWhile P s \<noteq> []"
    then have "\<not> P (hd (dropWhile P s))" by (rule hd_dropWhile)
    moreover have "hd (dropWhile P s) \<in> set (dropWhile P s)" using rest by simp
    ultimately show False using all by blast
  qed
next
  assume none: "dropWhile P s = []"
  show "\<forall>c \<in> set (dropWhile P s). P c" unfolding none by simp
qed

lemma trim_empty_iff: "trim s = [] \<longleftrightarrow> (\<forall>c \<in> set s. isWhiteSpace c)"
proof -
  have "trim s = [] \<longleftrightarrow> (\<forall>c \<in> set (dropWhile isWhiteSpace s). isWhiteSpace c)"
    by (simp add: trim_def dropWhile_eq_Nil_conv)
  also have "\<dots> \<longleftrightarrow> dropWhile isWhiteSpace s = []"
    by (rule dropWhile_all_iff)
  also have "\<dots> \<longleftrightarrow> (\<forall>c \<in> set s. isWhiteSpace c)"
    by (simp add: dropWhile_eq_Nil_conv)
  finally show ?thesis .
qed

lemma no_model:
  "\<not> modelAvailable (req_model body) \<Longrightarrow> \<not> truthy fallbackModel \<Longrightarrow>
   orElse (case req_model body of
             Some m \<Rightarrow> if length (trim m) > 0 then Some m else fallbackModel
           | None \<Rightarrow> fallbackModel) [] = []"
  by (cases fallbackModel) (auto simp: modelAvailable_def split: option.splits)

lemma no_model_rejected:
  assumes "\<not> modelAvailable (req_model body)" and "\<not> truthy fallbackModel"
  shows "\<exists>e. anthropicToAzureRequest rt body fallbackModel options = Inl e"
proof (cases "req_messages body")
  case None
  then show ?thesis by (simp add: anthropicToAzureRequest_def)
next
  case (Some messages)
  show ?thesis
  proof (cases messages)
    case Nil
    then show ?thesis using Some by (simp add: anthropicToAzureRequest_def)
  next
    case (Cons m ms)
    show ?thesis
    proof (cases "convertMessages rt (systemItems rt body) messages")
      case (Inl e)
      then show ?thesis
        using Some Cons
        by (simp add: anthropicToAzureRequest_def systemItems_eq del: convertMessages.simps)
    next
      case (Inr inp)
      then show ?thesis
        using Some Cons no_model [OF assms]
        by (simp add: anthropicToAzureRequest_def systemItems_eq Let_def
            del: convertMessages.simps)
    qed
  qed
qed

lemma no_model_error:
  assumes "req_messages body = Some messages" and "messages \<noteq> []"
    and "\<forall>m \<in> set messages. \<exists>blocks. normalizeMessageContent rt (msg_content m) = Inr blocks"
    and "\<not> modelAvailable (req_model body)" and "\<not> truthy fallbackModel"
  shows "anthropicToAzureRequest rt body fallbackModel options =
           Inl (Error ''No model specified in request or config'')"
proof -
  obtain m ms where ms: "messages = m # ms" using assms(2) by (cases messages) auto
  have conv: "convertMessages rt (systemItems rt body) messages =
          Inr (systemItems rt body @ concat (map (messageItems rt) messages))"
    using assms(3) by (rule convertMessages_succeeds)
  show ?thesis
    using assms(1) ms conv no_model [OF assms(4,5)]
    by (simp add: anthropicToAzureRequest_def systemItems_eq Let_def del: convertMessages.simps)
qed

lemma unsupported_block_rejected:
  assumes "req_messages body = Some messages" and "m \<in> set messages"
    and "msg_content m = ContentItems items" and "item \<in> set items"
    and "unsupportedBlock item"
  shows "\<exists>e. anthropicToAzureRequest rt body fallbackModel options = Inl e"
proof -
  have "\<exists>e. normalizeMessageContent rt (msg_content m) = Inl e"
    using assms(3,4) unsupported_rejected [OF assms(5), of rt]
      mapOrThrow_fails [of item items "normalizeItem rt"]
    by simp
  then obtain e where "normalizeMessageContent rt (msg_content m) = Inl e" by blast
  then have "\<exists>e'. convertMessages rt (systemItems rt body) messages = Inl e'"
    using assms(2) convertMessages_fails by blast
  then obtain e' where e': "convertMessages rt (systemItems rt body) messages = Inl e'" by blast
  obtain x xs where "messages = x # xs" using assms(2) by (cases messages) auto
  then show ?thesis
    using assms(1) e'
    by (simp add: anthropicToAzureRequest_def systemItems_eq del: convertMessages.simps)
qed

lemma first_unsupported_block_error:
  assumes "req_messages body = Some (m # rest)"
    and "msg_content m = ContentItems (item # others)"
    and "unsupportedBlock item"
  shows "anthropicToAzureRequest rt body fallbackModel options =
           Inl (Error (unsupportedMessage item))"
  using assms unsupported_rejected [OF assms(3), of rt]
  by (simp add: anthropicToAzureRequest_def convertMessage_def)

lemma rejected_before_post:
  "anthropicToAzureRequest rt body (cfg_model serverConfig)
     (Some \<lparr>defaultReasoningEffort = cfg_reasoningEffort serverConfig\<rparr>) = Inl (Error message) \<Longrightarrow>
   postMessages rt serverConfig post body = \<lparr>reply = JsonError 400 message, posted = []\<rparr>"
  by (simp add: postMessages_def)

text \<open>
  C9. The translation returns an error and no request when \<^verbatim>\<open>messages\<close> is absent
  or empty; when a content block of some message is an object without a type or with
  an unsupported one (with the error of that block when it is the first block of the
  first message); and when the request has no model that is non-empty after trimming
  and the fallback model is absent or empty (with the error of the missing model
  when the content of every message is accepted). On an error of the translation
  the handler answers with status 400 and has handed nothing to the outbound call.
\<close>

theorem C9_request_rejected_as_a_whole:
  "(req_messages body = None \<or> req_messages body = Some [] \<longrightarrow>
      anthropicToAzureRequest rt body fallbackModel options =
        Inl (Error ''Anthropic request must include at least one message''))
   \<and> (req_messages body = Some messages \<and> m \<in> set messages
        \<and> msg_content m = ContentItems items \<and> item \<in> set items \<and> unsupportedBlock item \<longrightarrow>
      (\<exists>e. anthropicToAzureRequest rt body fallbackModel options = Inl e))
   \<and> (req_messages body = Some (m # rest) \<and> msg_content m = ContentItems (item # others)
        \<and> unsupportedBlock item \<longrightarrow>
      anthropicToAzureRequest rt body fallbackModel options =
        Inl (Error (unsupportedMessage item)))
   \<and> (\<not> modelAvailable (req_model body) \<and> \<not> truthy fallbackModel \<longrightarrow>
      (\<exists>e. anthropicToAzureRequest rt body fallbackModel options = Inl e))
   \<and> (req_messages body = Some messages \<and> messages \<noteq> []
        \<and> (\<forall>m \<in> set messages. \<exists>blocks. normalizeMessageContent rt (msg_content m) = Inr blocks)
        \<and> \<not> modelAvailable (req_model body) \<and> \<not> truthy fallbackModel \<longrightarrow>
      anthropicToAzureRequest rt body fallbackModel options =
        Inl (Error ''No model specified in request or config''))
   \<and> (anthropicToAzureRequest rt body (cfg_model serverConfig)
         (Some \<lparr>defaultReasoningEffort = cfg_reasoningEffort serverConfig\<rparr>) = Inl (Error message) \<longrightarrow>
      postMessages rt serverConfig post body = \<lparr>reply = JsonError 400 message, posted = []\<rparr>)"
proof -
  have empty: "req_messages body = None \<or> req_messages body = Some [] \<longrightarrow>
      anthropicToAzureRequest rt body fallbackModel options =
        Inl (Error ''Anthropic request must include at least one message'')"
    by (auto simp: anthropicToAzureRequest_def)
  have block: "req_messages body = Some messages \<and> m \<in> set messages
        \<and> msg_content m = ContentItems items \<and> item \<in> set items \<and> unsupportedBlock item \<longrightarrow>
      (\<exists>e. anthropicToAzureRequest rt body fallbackModel options = Inl e)"
    using unsupported_block_rejected [of body messages m items item rt fallbackModel options]
    by simp
  have first: "req_messages body = Some (m # rest) \<and> msg_content m = ContentItems (item # others)
        \<and> unsupportedBlock item \<longrightarrow>
      anthropicToAzureRequest rt body fallbackModel options =
        Inl (Error (unsupportedMessage item))"
    using first_unsupported_block_error [of body m rest item others rt fallbackModel options]
    by simp
  have model: "\<not> modelAvailable (req_model body) \<and> \<not> truthy fallbackModel \<longrightarrow>
      (\<exists>e. anthropicToAzureRequest rt body fallbackModel options = Inl e)"
    using no_model_rejected [of body fallbackModel rt options] by simp
  have model_error: "req_messages body = Some messages \<and> messages \<noteq> []
        \<and> (\<forall>m \<in> set messages. \<exists>blocks. normalizeMessageContent rt (msg_content m) = Inr blocks)
        \<and> \<not> modelAvailable (req_model body) \<and> \<not> truthy fallbackModel \<longrightarrow>
      anthropicToAzureRequest rt body fallbackModel options =
        Inl (Error ''No model specified in request or config'')"
    using no_model_error [of body messages rt fallbackModel options] by simp
  have handler: "anthropicToAzureRequest rt body (cfg_model serverConfig)
         (Some \<lparr>defaultReasoningEffort = cfg_reasoningEffort serverConfig\<rparr>) = Inl (Error message) \<longrightarrow>
      postMessages rt serverConfig post body = \<lparr>reply = JsonError 400 message, posted = []\<rparr>"
    using rejected_before_post [of rt body serverConfig message post] by simp
  show ?thesis
    using empty block first model model_error handler by (intro conjI)
qed

theorem C9_request_rejected_as_a_whole_witness:
  "anthropicToAzureRequest sampleRuntime emptyRequest (Some ''gpt-5'') None
     = Inl (Error ''Anthropic request must include at least one message'')
   \<and> anthropicToAzureRequest sampleRuntime (emptyRequest\<lparr>req_messages := Some []\<rparr>)
       (Some ''gpt-5'') None
     = Inl (Error ''Anthropic request must include at least one message'')
   \<and> anthropicToAzureRequest sampleRuntime
       (emptyRequest\<lparr>req_messages := Some
          [\<lparr>msg_role = User, msg_content = ContentItems
              [ItemObject (emptyBlock\<lparr>rb_type := Some ''image''\<rparr>), ItemString ''Hi'']\<rparr>]\<rparr>)
       (Some ''gpt-5'') None
     = Inl (Error ''Unsupported content block type: image'')
   \<and> anthropicToAzureRequest sampleRuntime
       (emptyRequest\<lparr>req_messages := Some
          [\<lparr>msg_role = User, msg_content = ContentItems [ItemObject emptyBlock]\<rparr>]\<rparr>)
       (Some ''gpt-5'') None
     = Inl (Error ''Unsupported content block format'')
   \<and> anthropicToAzureRequest sampleRuntime
       (emptyRequest\<lparr>req_model := Some ''  '', req_messages := Some
          [\<lparr>msg_role = User, msg_content = ContentText ''Hi''\<rparr>]\<rparr>)
       None None
     = Inl (Error ''No model specified in request or config'')
   \<and> postMessages sampleRuntime \<lparr>cfg_model = None, cfg_reasoningEffort = None\<rparr>
       (\<lambda>request. UpstreamFailed 500 ''unreachable'')
       (emptyRequest\<lparr>req_model := Some ''  '', req_messages := Some
          [\<lparr>msg_role = User, msg_content = ContentText ''Hi''\<rparr>]\<rparr>)
     = \<lparr>reply = JsonError 400 ''No model specified in request or config'', posted = []\<rparr>"
proof -
  let ?image = "ItemObject (emptyBlock\<lparr>rb_type := Some ''image''\<rparr>)"
  let ?m1 = "\<lparr>msg_role = User, msg_content = ContentItems [?image, ItemString ''Hi'']\<rparr>"
  let ?m2 = "\<lparr>msg_role = User, msg_content = ContentItems [ItemObject emptyBlock]\<rparr>"
  let ?m3 = "\<lparr>msg_role = User, msg_content = ContentText ''Hi''\<rparr>"
  let ?b3 = "emptyRequest\<lparr>req_model := Some ''  '', req_messages := Some [?m3]\<rparr>"
  have blank: "\<not> modelAvailable (req_model ?b3)"
    by (simp add: modelAvailable_def trim_def isWhiteSpace_def)
  have none: "anthropicToAzureRequest sampleRuntime emptyRequest (Some ''gpt-5'') None
     = Inl (Error ''Anthropic request must include at least one message'')"
    using C9_request_rejected_as_a_whole
      [where body = emptyRequest and rt = sampleRuntime and fallbackModel = "Some ''gpt-5''"
         and options = None]
    by (simp add: emptyRequest_def)
  have nil: "anthropicToAzureRequest sampleRuntime (emptyRequest\<lparr>req_messages := Some []\<rparr>)
       (Some ''gpt-5'') None
     = Inl (Error ''Anthropic request must include at least one message'')"
    using C9_request_rejected_as_a_whole
      [where body = "emptyRequest\<lparr>req_messages := Some []\<rparr>" and rt = sampleRuntime
         and fallbackModel = "Some ''gpt-5''" and options = None]
    by simp
  have image: "anthropicToAzureRequest sampleRuntime
       (emptyRequest\<lparr>req_messages := Some [?m1]\<rparr>) (Some ''gpt-5'') None
     = Inl (Error ''Unsupported content block type: image'')"
    using C9_request_rejected_as_a_whole
      [where body = "emptyRequest\<lparr>req_messages := Some [?m1]\<rparr>" and rt = sampleRuntime
         and fallbackModel = "Some ''gpt-5''" and options = None and m = ?m1 and rest = "[]"
         and item = ?image and others = "[ItemString ''Hi'']"]
    by (simp add: emptyBlock_def)
  have untyped: "anthropicToAzureRequest sampleRuntime
       (emptyRequest\<lparr>req_messages := Some [?m2]\<rparr>) (Some ''gpt-5'') None
     = Inl (Error ''Unsupported content block format'')"
    using C9_request_rejected_as_a_whole
      [where body = "emptyRequest\<lparr>req_messages := Some [?m2]\<rparr>" and rt = sampleRuntime
         and fallbackModel = "Some ''gpt-5''" and options = None and m = ?m2 and rest = "[]"
         and item = "ItemObject emptyBlock" and others = "[]"]
    by (simp add: emptyBlock_def)
  have model: "anthropicToAzureRequest sampleRuntime ?b3 None None
     = Inl (Error ''No model specified in request or config'')"
    using C9_request_rejected_as_a_whole
      [where body = ?b3 and rt = sampleRuntime and fallbackModel = None and options = None
         and messages = "[?m3]"] blank
    by simp
  have model': "anthropicToAzureRequest sampleRuntime ?b3 None
       (Some \<lparr>defaultReasoningEffort = None\<rparr>)
     = Inl (Error ''No model specified in request or config'')"
    using C9_request_rejected_as_a_whole
      [where body = ?b3 and rt = sampleRuntime and fallbackModel = None
         and options = "Some \<lparr>defaultReasoningEffort = None\<rparr>" and messages = "[?m3]"] blank
    by simp
  have handler: "postMessages sampleRuntime \<lparr>cfg_model = None, cfg_reasoningEffort = None\<rparr>
       (\<lambda>request. UpstreamFailed 500 ''unreachable'') ?b3
     = \<lparr>reply = JsonError 400 ''No model specified in request or config'', posted = []\<rparr>"
    using C9_request_rejected_as_a_whole
      [where body = ?b3 and rt = sampleRuntime
         and serverConfig = "\<lparr>cfg_model = None, cfg_reasoningEffort = None\<rparr>"
         and message = "''No model specified in request or config''"
         and post = "\<lambda>request. UpstreamFailed 500 ''unreachable''"] model'
    by simp
  show ?thesis
    using none nil image untyped model handler by (intro conjI)
qed

section \<open>The reasoning effort\<close>

lemma request_reasoning:
  assumes "anthropicToAzureRequest rt body fallbackModel options = Inr request"
  shows "az_reasoning request =
           (case orElseOpt (Option.bind (req_reasoning body) effort)
                   (Option.bind options defaultReasoningEffort) of
              Some e \<Rightarrow> if trim e \<noteq> [] then Some \<lparr>effort = Some e\<rparr> else None
            | None \<Rightarrow> None)"
proof (cases "req_messages body")
  case None
  then show ?thesis using assms by (simp add: anthropicToAzureRequest_def)
next
  case (Some messages)
  show ?thesis
  proof (cases messages)
    case Nil
    then show ?thesis using assms Some by (simp add: anthropicToAzureRequest_def)
  next
    case (Cons m ms)
    show ?thesis
    proof (cases "convertMessages rt (systemItems rt body) messages")
      case (Inl e)
      then show ?thesis
        using assms Some Cons
        by (simp add: anthropicToAzureRequest_def systemItems_eq del: convertMessages.simps)
    next
      case (Inr inp)
      then show ?thesis
        using assms Some Cons
        by (auto simp add: anthropicToAzureRequest_def systemItems_eq Let_def
            simp del: convertMessages.simps split: if_splits option.splits)
    qed
  qed
qed

text \<open>
  C3, as the specification states it, fails: a request whose \<^verbatim>\<open>reasoning.effort\<close> is the
  empty string, translated with the default \<^verbatim>\<open>high\<close>, carries no reasoning field.
\<close>

theorem C3_empty_effort_hides_default:
  "anthropicToAzureRequest sampleRuntime
     (emptyRequest\<lparr>req_messages := Some [\<lparr>msg_role = User, msg_content = ContentText ''Hello''\<rparr>],
                   req_reasoning := Some \<lparr>effort = Some ''''\<rparr>\<rparr>)
     (Some ''gpt-5'') (Some \<lparr>defaultReasoningEffort = Some ''high''\<rparr>)
   = Inr \<lparr>az_model = ''gpt-5'',
          az_input = [AzureMessageInput User [AzureTextContentBlock input_text ''Hello'']],
          az_temperature = None, az_top_p = None, az_stop = None, az_max_output_tokens = None,
          az_metadata = None, az_tools = None, az_tool_choice = None, az_reasoning = None\<rparr>"
  by (simp add: request_defs)

text \<open>
  C3, amended. The resolved effort is the request's \<^verbatim>\<open>reasoning.effort\<close> whenever that
  is present, even if empty or blank, and the default otherwise. The request that is
  produced carries the resolved effort, unchanged, if it has a character that is not
  white space, and has no reasoning field otherwise; so an empty effort of the
  request gives no reasoning field whatever the default is.
\<close>

theorem C3_reasoning_effort:
  assumes "anthropicToAzureRequest rt body fallbackModel options = Inr request"
  shows "(req_reasoning body = Some \<lparr>effort = Some e\<rparr> \<longrightarrow>
            az_reasoning request = (if trim e \<noteq> [] then Some \<lparr>effort = Some e\<rparr> else None))
    \<and> ((req_reasoning body = None \<or> req_reasoning body = Some \<lparr>effort = None\<rparr>)
         \<and> options = Some \<lparr>defaultReasoningEffort = Some d\<rparr> \<longrightarrow>
            az_reasoning request = (if trim d \<noteq> [] then Some \<lparr>effort = Some d\<rparr> else None))
    \<and> ((req_reasoning body = None \<or> req_reasoning body = Some \<lparr>effort = None\<rparr>)
         \<and> (options = None \<or> options = Some \<lparr>defaultReasoningEffort = None\<rparr>) \<longrightarrow>
            az_reasoning request = None)
    \<and> (trim e = [] \<longleftrightarrow> (\<forall>c \<in> set e. isWhiteSpace c))
    \<and> (req_reasoning body = Some \<lparr>effort = Some ''''\<rparr> \<longrightarrow> az_reasoning request = None)"
proof -
  note r = request_reasoning [OF assms]
  have explicit: "req_reasoning body = Some \<lparr>effort = Some e\<rparr> \<longrightarrow>
            az_reasoning request = (if trim e \<noteq> [] then Some \<lparr>effort = Some e\<rparr> else None)"
    using r by simp
  have default: "(req_reasoning body = None \<or> req_reasoning body = Some \<lparr>effort = None\<rparr>)
         \<and> options = Some \<lparr>defaultReasoningEffort = Some d\<rparr> \<longrightarrow>
            az_reasoning request = (if trim d \<noteq> [] then Some \<lparr>effort = Some d\<rparr> else None)"
    using r by auto
  have neither: "(req_reasoning body = None \<or> req_reasoning body = Some \<lparr>effort = None\<rparr>)
         \<and> (options = None \<or> options = Some \<lparr>defaultReasoningEffort = None\<rparr>) \<longrightarrow>
            az_reasoning request = None"
    using r by auto
  have blank: "trim e = [] \<longleftrightarrow> (\<forall>c \<in> set e. isWhiteSpace c)"
    by (rule trim_empty_iff)
  have empty: "req_reasoning body = Some \<lparr>effort = Some ''''\<rparr> \<longrightarrow> az_reasoning request = None"
    using r by (simp add: trim_def)
  show ?thesis
    using explicit default neither blank empty by (intro conjI)
qed

theorem C3_reasoning_effort_witness:
  "anthropicToAzureRequest sampleRuntime
     (emptyRequest\<lparr>req_messages := Some [\<lparr>msg_role = User, msg_content = ContentText ''Hello''\<rparr>],
                   req_reasoning := Some \<lparr>effort = None\<rparr>\<rparr>)
     (Some ''gpt-5'') (Some \<lparr>defaultReasoningEffort = Some ''high''\<rparr>)
   = Inr \<lparr>az_model = ''gpt-5'',
          az_input = [AzureMessageInput User [AzureTextContentBlock input_text ''Hello'']],
          az_temperature = None, az_top_p = None, az_stop = None, az_max_output_tokens = None,
          az_metadata = None, az_tools = None, az_tool_choice = None,
          az_reasoning = Some \<lparr>effort = Some ''high''\<rparr>\<rparr>
   \<and> anthropicToAzureRequest sampleRuntime
     (emptyRequest\<lparr>req_messages := Some [\<lparr>msg_role = User, msg_content = ContentText ''Hello''\<rparr>],
                   req_reasoning := Some \<lparr>effort = Some ''low''\<rparr>\<rparr>)
     (Some ''gpt-5'') (Some \<lparr>defaultReasoningEffort = Some ''high''\<rparr>)
   = Inr \<lparr>az_model = ''gpt-5'',
          az_input = [AzureMessageInput User [AzureTextContentBlock input_text ''Hello'']],
          az_temperature = None, az_top_p = None, az_stop = None, az_max_output_tokens = None,
          az_metadata = None, az_tools = None, az_tool_choice = None,
          az_reasoning = Some \<lparr>effort = Some ''low''\<rparr>\<rparr>"
proof -
  let ?messages = "Some [\<lparr>msg_role = User, msg_content = ContentText ''Hello''\<rparr>]"
  let ?request = "\<lambda>r. \<lparr>az_model = ''gpt-5'',
          az_input = [AzureMessageInput User [AzureTextContentBlock input_text ''Hello'']],
          az_temperature = None, az_top_p = None, az_stop = None, az_max_output_tokens = None,
          az_metadata = None, az_tools = None, az_tool_choice = None,
          az_reasoning = r\<rparr>"
  have one: "anthropicToAzureRequest sampleRuntime
     (emptyRequest\<lparr>req_messages := ?messages, req_reasoning := Some \<lparr>effort = None\<rparr>\<rparr>)
     (Some ''gpt-5'') (Some \<lparr>defaultReasoningEffort = Some ''high''\<rparr>)
     = Inr (?request (Some \<lparr>effort = Some ''high''\<rparr>))"
    by (simp add: request_defs)
  have two: "anthropicToAzureRequest sampleRuntime
     (emptyRequest\<lparr>req_messages := ?messages, req_reasoning := Some \<lparr>effort = Some ''low''\<rparr>\<rparr>)
     (Some ''gpt-5'') (Some \<lparr>defaultReasoningEffort = Some ''high''\<rparr>)
     = Inr (?request (Some \<lparr>effort = Some ''low''\<rparr>))"
    by (simp add: request_defs)
  show ?thesis
    using C3_reasoning_effort [OF one, where d = "''high''"]
      C3_reasoning_effort [OF two, where e = "''low''"] one two
    by simp
qed

section \<open>The event stream of a response\<close>

lemma streamBlock_events:
  "events (streamBlock rt res p) = events res @ blockFrames (encodeInput rt) p"
  by (cases p; cases "snd p")
     (simp_all add: writeSseEvent_def encodeInput_def Let_def)

lemma streamBlock_rest:
  "statusCode (streamBlock rt res p) = statusCode res \<and>
   headers (streamBlock rt res p) = headers res \<and>
   ended (streamBlock rt res p) = ended res"
  by (cases p; cases "snd p") (simp_all add: writeSseEvent_def Let_def)

lemma streamBlocks_events:
  "events (foldl (streamBlock rt) res ps) =
     events res @ concat (map (blockFrames (encodeInput rt)) ps)"
  by (induction ps arbitrary: res) (simp_all add: streamBlock_events del: streamBlock.simps)

lemma streamBlocks_rest:
  "statusCode (foldl (streamBlock rt) res ps) = statusCode res \<and>
   headers (foldl (streamBlock rt) res ps) = headers res \<and>
   ended (foldl (streamBlock rt) res ps) = ended res"
  by (induction ps arbitrary: res) (simp_all add: streamBlock_rest del: streamBlock.simps)

text \<open>
  C4, as the specification states it, fails: for a tool-use block whose input is
  \<^verbatim>\<open>null\<close> the delta carries the text of the empty object, not the JSON text
  \<^verbatim>\<open>null\<close> of the input.
\<close>

theorem C4_null_input_streamed_as_empty_object:
  "events (streamAnthropicResponse sampleRuntime freshTransport
     \<lparr>resp_id = ''r1'', resp_model = ''gpt-5'',
      resp_content = [ToolUse ''t1'' ''lookup'' JNull],
      resp_stop_reason = Some ''tool_use'', resp_stop_sequence = None,
      resp_usage = \<lparr>usage_input_tokens = 3, usage_output_tokens = 5\<rparr>\<rparr>)
   = [(''message_start'', message_start
        \<lparr>resp_id = ''r1'', resp_model = ''gpt-5'', resp_content = [],
         resp_stop_reason = None, resp_stop_sequence = None,
         resp_usage = \<lparr>usage_input_tokens = 3, usage_output_tokens = 5\<rparr>\<rparr>),
      (''content_block_start'', content_block_start 0 (ToolUse ''t1'' ''lookup'' JNull)),
      (''content_block_delta'', content_block_delta 0 (input_json_delta ''{}'')),
      (''content_block_stop'', content_block_stop 0),
      (''message_delta'', message_delta (Some ''tool_use'') None
        \<lparr>usage_input_tokens = 3, usage_output_tokens = 5\<rparr>),
      (''message_stop'', message_stop)]
   \<and> JSON_stringify sampleRuntime JNull = ''null''
   \<and> events (streamAnthropicResponse sampleRuntime freshTransport
     \<lparr>resp_id = ''r1'', resp_model = ''gpt-5'',
      resp_content = [ToolUse ''t1'' ''lookup'' JNull],
      resp_stop_reason = Some ''tool_use'', resp_stop_sequence = None,
      resp_usage = \<lparr>usage_input_tokens = 3, usage_output_tokens = 5\<rparr>\<rparr>)
   \<noteq> responseFrames (JSON_stringify sampleRuntime)
     \<lparr>resp_id = ''r1'', resp_model = ''gpt-5'',
      resp_content = [ToolUse ''t1'' ''lookup'' JNull],
      resp_stop_reason = Some ''tool_use'', resp_stop_sequence = None,
      resp_usage = \<lparr>usage_input_tokens = 3, usage_output_tokens = 5\<rparr>\<rparr>"
  by (simp add: streamAnthropicResponse_def freshTransport_def setHeader_def writeSseEvent_def
      responseFrames_def sampleRuntime_def Let_def enumerate_eq_zip)

text \<open>
  C4, amended. The events written are exactly the frames of the response, in order:
  \<^verbatim>\<open>message_start\<close> with the envelope; for each block at its index
  \<^verbatim>\<open>content_block_start\<close>, one \<^verbatim>\<open>content_block_delta\<close> for a non-empty text or for a
  tool-use block, and \<^verbatim>\<open>content_block_stop\<close>; \<^verbatim>\<open>message_delta\<close>; \<^verbatim>\<open>message_stop\<close>. Then
  the transport is ended, with status 200. The delta of a tool-use block carries the
  JSON text of its input, or of the empty object when the input is \<^verbatim>\<open>null\<close> or
  \<^verbatim>\<open>undefined\<close>.
\<close>

theorem C4_stream_event_sequence:
  "events (streamAnthropicResponse rt res response) =
     events res @ responseFrames (encodeInput rt) response
   \<and> events (streamAnthropicResponse rt freshTransport response) =
       responseFrames (encodeInput rt) response
   \<and> ended (streamAnthropicResponse rt res response)
   \<and> statusCode (streamAnthropicResponse rt res response) = Some 200
   \<and> encodeInput rt JNull = JSON_stringify rt (JObj [])
   \<and> encodeInput rt JUndefined = JSON_stringify rt (JObj [])
   \<and> (v \<noteq> JNull \<and> v \<noteq> JUndefined \<longrightarrow> encodeInput rt v = JSON_stringify rt v)"
proof -
  have envelope: "\<lparr>resp_id = resp_id response, resp_model = resp_model response,
                   resp_content = [], resp_stop_reason = None, resp_stop_sequence = None,
                   resp_usage = resp_usage response\<rparr>
                  = response\<lparr>resp_content := [], resp_stop_reason := None,
                             resp_stop_sequence := None\<rparr>"
    by simp
  have ev: "events (streamAnthropicResponse rt r response) =
              events r @ responseFrames (encodeInput rt) response" for r
    unfolding streamAnthropicResponse_def responseFrames_def Let_def envelope
    by (simp add: streamBlocks_events writeSseEvent_def setHeader_def)
  have fresh: "events (streamAnthropicResponse rt freshTransport response) =
       responseFrames (encodeInput rt) response"
    using ev [of freshTransport] by (simp add: freshTransport_def)
  have closed: "ended (streamAnthropicResponse rt res response)"
    by (simp add: streamAnthropicResponse_def Let_def)
  have st: "statusCode (streamAnthropicResponse rt res response) = Some 200"
    by (simp add: streamAnthropicResponse_def Let_def writeSseEvent_def setHeader_def
        streamBlocks_rest)
  have enc: "v \<noteq> JNull \<and> v \<noteq> JUndefined \<longrightarrow> encodeInput rt v = JSON_stringify rt v"
    by (cases v) (simp_all add: encodeInput_def)
  show ?thesis
    using ev [of res] fresh closed st enc by (simp add: encodeInput_def)
qed

theorem C4_stream_event_sequence_witness:
  "events (streamAnthropicResponse sampleRuntime freshTransport
     \<lparr>resp_id = ''r1'', resp_model = ''gpt-5'',
      resp_content = [Text ''Hi'', Text '''', ToolUse ''t1'' ''lookup'' (JArr [])],
      resp_stop_reason = Some ''tool_use'', resp_stop_sequence = None,
      resp_usage = \<lparr>usage_input_tokens = 3, usage_output_tokens = 5\<rparr>\<rparr>)
   = [(''message_start'', message_start
        \<lparr>resp_id = ''r1'', resp_model = ''gpt-5'', resp_content = [],
         resp_stop_reason = None, resp_stop_sequence = None,
         resp_usage = \<lparr>usage_input_tokens = 3, usage_output_tokens = 5\<rparr>\<rparr>),
      (''content_block_start'', content_block_start 0 (Text ''Hi'')),
      (''content_block_delta'', content_block_delta 0 (text_delta ''Hi'')),
      (''content_block_stop'', content_block_stop 0),
      (''content_block_start'', content_block_start 1 (Text '''')),
      (''content_block_stop'', content_block_stop 1),
      (''content_block_start'', content_block_start 2 (ToolUse ''t1'' ''lookup'' (JArr []))),
      (''content_block_delta'', content_block_delta 2 (input_json_delta ''[]'')),
      (''content_block_stop'', content_block_stop 2),
      (''message_delta'', message_delta (Some ''tool_use'') None
        \<lparr>usage_input_tokens = 3, usage_output_tokens = 5\<rparr>),
      (''message_stop'', message_stop)]"
proof -
  let ?response = "\<lparr>resp_id = ''r1'', resp_model = ''gpt-5'',
      resp_content = [Text ''Hi'', Text '''', ToolUse ''t1'' ''lookup'' (JArr [])],
      resp_stop_reason = Some ''tool_use'', resp_stop_sequence = None,
      resp_usage = \<lparr>usage_input_tokens = 3, usage_output_tokens = 5\<rparr>\<rparr>"
  have frames: "events (streamAnthropicResponse sampleRuntime freshTransport ?response) =
       responseFrames (encodeInput sampleRuntime) ?response"
    using C4_stream_event_sequence
      [where rt = sampleRuntime and res = freshTransport and response = ?response]
    by blast
  show ?thesis
    unfolding frames
    by (simp add: responseFrames_def encodeInput_def sampleRuntime_def enumerate_eq_zip
        numeral_2_eq_2)
qed

end
